theory Spec2Isabelle
  imports Main
begin

section \<open>The integers of the engine\<close>

text \<open>
  Modelled from the spec: the engine (\<^verbatim>\<open>app/database.py\<close>) is not among the sources; the
  model follows SQLite. The handlers' \<^verbatim>\<open>int\<close> parameters are Python integers, without
  bound; the engine stores and binds signed 64-bit integers, and binding an integer
  outside that range raises \<^verbatim>\<open>OverflowError\<close>, which no handler catches.
\<close>

definition in_int64 :: "int \<Rightarrow> bool" where
  "in_int64 i = (- (2 ^ 63) \<le> i \<and> i < 2 ^ 63)"

typedef int64 = "{i :: int. - (2 ^ 63) \<le> i \<and> i < 2 ^ 63}"
  by (rule exI [of _ 0]) simp

section \<open>The three tables\<close>

text \<open>
  Modelled from the spec: \<^verbatim>\<open>app/models.py\<close> (the classes \<^verbatim>\<open>CourseDB\<close>, \<^verbatim>\<open>UserDB\<close>,
  \<^verbatim>\<open>ProjectDB\<close>) is not among the sources. The columns are those of the spec's data
  model: every row carries its system-assigned integer id, and a project carries the id
  of its owner. The primary key of a stored row is an integer of the engine; \<open>c_id\<close>,
  \<open>u_id\<close> and \<open>p_id\<close> read it as the integer the handlers see.
\<close>

record course =
  c_key :: int64
  c_code :: string
  c_name :: string
  c_credits :: int

record user =
  u_key :: int64
  u_name :: string
  u_email :: string
  u_age :: int
  u_student_id :: string

record project =
  p_key :: int64
  p_name :: string
  p_description :: string
  p_owner_id :: int

definition c_id :: "course \<Rightarrow> int" where
  "c_id r = Rep_int64 (c_key r)"

definition u_id :: "user \<Rightarrow> int" where
  "u_id r = Rep_int64 (u_key r)"

definition p_id :: "project \<Rightarrow> int" where
  "p_id r = Rep_int64 (p_key r)"

text \<open>The persistent store: the rows of each table, in storage order.\<close>

record store =
  courses :: "course list"
  users :: "user list"
  projects :: "project list"

section \<open>Request payloads\<close>

text \<open>
  Modelled from the spec: \<^verbatim>\<open>app/schemas.py\<close> is not among the sources. A create or PUT
  payload carries every mutable field; a PATCH payload carries each field optionally,
  \<open>None\<close> standing for a field the request did not set (the keys that
  \<^verbatim>\<open>model_dump(exclude_unset=True)\<close> leaves out). The validation layer lets no malformed
  input reach the repository calls: the owner id of a payload, which the handlers look
  up, is an integer that the engine can bind; \<open>pc_owner_id\<close>, \<open>pput_owner_id\<close> and
  \<open>ppatch_owner_id\<close> read it as the integer the handlers see. The other integers of a
  payload (credits, age) are only stored, and the model puts no bound on them.
\<close>

record course_create =
  cc_code :: string
  cc_name :: string
  cc_credits :: int

record course_update_put =
  cput_code :: string
  cput_name :: string
  cput_credits :: int

record course_update_patch =
  cpatch_code :: "string option"
  cpatch_name :: "string option"
  cpatch_credits :: "int option"

record user_create =
  uc_name :: string
  uc_email :: string
  uc_age :: int
  uc_student_id :: string

record user_update_put =
  uput_name :: string
  uput_email :: string
  uput_age :: int
  uput_student_id :: string

record user_update_patch =
  upatch_name :: "string option"
  upatch_email :: "string option"
  upatch_age :: "int option"
  upatch_student_id :: "string option"

record project_create =
  pc_name :: string
  pc_description :: string
  pc_owner :: int64

definition pc_owner_id :: "project_create \<Rightarrow> int" where
  "pc_owner_id p = Rep_int64 (pc_owner p)"

record project_create_for_user =
  pcu_name :: string
  pcu_description :: string

record project_update_put =
  pput_name :: string
  pput_description :: string
  pput_owner :: int64

definition pput_owner_id :: "project_update_put \<Rightarrow> int" where
  "pput_owner_id p = Rep_int64 (pput_owner p)"

record project_update_patch =
  ppatch_name :: "string option"
  ppatch_description :: "string option"
  ppatch_owner :: "int64 option"

definition ppatch_owner_id :: "project_update_patch \<Rightarrow> int option" where
  "ppatch_owner_id p = map_option Rep_int64 (ppatch_owner p)"

section \<open>Sessions, exceptions and responses\<close>

text \<open>
  A session holds the store as last committed and the working copy that the pending
  changes of the request have been applied to. \<^verbatim>\<open>get_db\<close> opens one session per
  request and closes it on every exit path; closing discards what was not committed.
\<close>

record session =
  committed :: store
  pending :: store

datatype exn =
  HTTPException nat string
  | IntegrityError
  | InvalidRequestError
  | MultipleResultsFound
  | OverflowError

datatype 'a response =
  Response nat 'a
  | ErrorResponse nat string

type_synonym 'a io = "session \<Rightarrow> (exn + 'a) \<times> session"

text \<open>
  What the store enforces when a change is flushed: a relation between the committed
  store and the store the pending change would produce. The constraints themselves are
  declared in \<^verbatim>\<open>app/models.py\<close> and enforced by the engine of \<^verbatim>\<open>app/database.py\<close>,
  neither of which is among the sources, so the handlers take them as a parameter.
\<close>

type_synonym constraints = "store \<Rightarrow> store \<Rightarrow> bool"

definition io_return :: "'a \<Rightarrow> 'a io" where
  "io_return x = (\<lambda>s. (Inr x, s))"

definition io_raise :: "exn \<Rightarrow> 'a io" where
  "io_raise e = (\<lambda>s. (Inl e, s))"

definition io_bind :: "'a io \<Rightarrow> ('a \<Rightarrow> 'b io) \<Rightarrow> 'b io" where
  "io_bind m f = (\<lambda>s. case m s of (Inl e, s') \<Rightarrow> (Inl e, s') | (Inr x, s') \<Rightarrow> f x s')"

definition get_db :: "store \<Rightarrow> session" where
  "get_db st = \<lparr>committed = st, pending = st\<rparr>"

definition close :: "session \<Rightarrow> store" where
  "close s = committed s"

text \<open>
  One request: the handler runs in a fresh session, and the framework turns its outcome
  into a response. An \<^verbatim>\<open>HTTPException\<close> becomes an error response with its status and
  detail; any other exception is unhandled and becomes a 500.
\<close>

definition serve :: "(nat \<times> 'a) io \<Rightarrow> store \<Rightarrow> 'a response \<times> store" where
  "serve handler st =
     (case handler (get_db st) of
        (Inr (code, body), s) \<Rightarrow> (Response code body, close s)
      | (Inl (HTTPException code detail), s) \<Rightarrow> (ErrorResponse code detail, close s)
      | (Inl _, s) \<Rightarrow> (ErrorResponse 500 ''Internal Server Error'', close s))"

section \<open>The session's operations\<close>

text \<open>
  A mapped class: where its rows live in the store, how they are written back, and its
  primary key.
\<close>

record 'r model =
  rows :: "store \<Rightarrow> 'r list"
  put_rows :: "'r list \<Rightarrow> store \<Rightarrow> store"
  pk :: "'r \<Rightarrow> int"

definition CourseDB :: "course model" where
  "CourseDB = \<lparr>rows = courses, put_rows = (\<lambda>rs st. st\<lparr>courses := rs\<rparr>), pk = c_id\<rparr>"

definition UserDB :: "user model" where
  "UserDB = \<lparr>rows = users, put_rows = (\<lambda>rs st. st\<lparr>users := rs\<rparr>), pk = u_id\<rparr>"

definition ProjectDB :: "project model" where
  "ProjectDB = \<lparr>rows = projects, put_rows = (\<lambda>rs st. st\<lparr>projects := rs\<rparr>), pk = p_id\<rparr>"

text \<open>
  \<^verbatim>\<open>db.get(Model, id)\<close>: the id is bound to the query, which fails for an integer that
  the engine cannot bind; otherwise the result is the row with that primary key, or
  \<open>None\<close>.
\<close>

definition db_get :: "'r model \<Rightarrow> int \<Rightarrow> ('r option) io" where
  "db_get M i = (\<lambda>s.
     if in_int64 i then (Inr (List.find (\<lambda>r. pk M r = i) (rows M (pending s))), s)
     else (Inl OverflowError, s))"

text \<open>
  Modelled from the spec: ids are system-assigned and unique; how the engine picks them
  is not in the sources. The model takes one more than the largest id of the table.
\<close>

definition next_id :: "'r model \<Rightarrow> store \<Rightarrow> int" where
  "next_id M st = fold max (map (pk M) (rows M st)) 0 + 1"

text \<open>
  \<^verbatim>\<open>row = Model(...); db.add(row)\<close>: the new row is pending, with the id the store
  assigns to it. \<open>mk\<close> builds the row from its id. When the ids of the engine are
  used up, the insert fails with an error that no handler catches.
\<close>

definition db_add :: "'r model \<Rightarrow> (int64 \<Rightarrow> 'r) \<Rightarrow> 'r io" where
  "db_add M mk = (\<lambda>s.
     if in_int64 (next_id M (pending s))
     then (let row = mk (Abs_int64 (next_id M (pending s)))
           in (Inr row, s\<lparr>pending := put_rows M (rows M (pending s) @ [row]) (pending s)\<rparr>))
     else (Inl OverflowError, s))"

text \<open>Attribute assignment on the loaded row with primary key \<open>i\<close>.\<close>

definition db_set :: "'r model \<Rightarrow> int \<Rightarrow> ('r \<Rightarrow> 'r) \<Rightarrow> unit io" where
  "db_set M i f = (\<lambda>s.
     (Inr (), s\<lparr>pending :=
        put_rows M (map (\<lambda>r. if pk M r = i then f r else r) (rows M (pending s))) (pending s)\<rparr>))"

text \<open>
  Modelled from the spec: whether deleting a row touches rows of another table is set by
  the relationships of \<^verbatim>\<open>app/models.py\<close>, which is not among the sources. The spec has
  no cascade: \<^verbatim>\<open>db.delete(row)\<close> marks that one row for deletion and nothing else.
\<close>

definition db_delete :: "'r model \<Rightarrow> int \<Rightarrow> unit io" where
  "db_delete M i = (\<lambda>s.
     (Inr (), s\<lparr>pending :=
        put_rows M (filter (\<lambda>r. pk M r \<noteq> i) (rows M (pending s))) (pending s)\<rparr>))"

text \<open>
  \<^verbatim>\<open>db.commit()\<close>: the pending change is flushed and made durable, unless the store
  reports a violation of its constraints. A session with nothing to flush sends no
  statement, so its commit cannot violate anything.
\<close>

definition flush_ok :: "constraints \<Rightarrow> session \<Rightarrow> bool" where
  "flush_ok accepts s = (pending s = committed s \<or> accepts (committed s) (pending s))"

definition db_commit :: "constraints \<Rightarrow> unit io" where
  "db_commit accepts = (\<lambda>s.
     if flush_ok accepts s then (Inr (), s\<lparr>committed := pending s\<rparr>)
     else (Inl IntegrityError, s))"

definition db_rollback :: "unit io" where
  "db_rollback = (\<lambda>s. (Inr (), s\<lparr>pending := committed s\<rparr>))"

text \<open>\<^verbatim>\<open>db.refresh(row)\<close>: the row is read again by its primary key.\<close>

definition db_refresh :: "'r model \<Rightarrow> int \<Rightarrow> 'r io" where
  "db_refresh M i = (\<lambda>s.
     case List.find (\<lambda>r. pk M r = i) (rows M (pending s)) of
       None \<Rightarrow> (Inl InvalidRequestError, s)
     | Some r \<Rightarrow> (Inr r, s))"

text \<open>
  \<^verbatim>\<open>db.execute(stmt).scalars().all()\<close> for a query \<open>q\<close> over the store, with the
  integers \<open>params\<close> that the statement binds: the execution fails when the engine cannot
  bind one of them.
\<close>

definition db_execute :: "int list \<Rightarrow> (store \<Rightarrow> 'r list) \<Rightarrow> ('r list) io" where
  "db_execute params q = (\<lambda>s.
     if list_all in_int64 params then (Inr (q (pending s)), s)
     else (Inl OverflowError, s))"

text \<open>
  Modelled from the spec: the engine (\<^verbatim>\<open>app/database.py\<close>) is not among the sources.
  For the integers that it can bind the model follows SQLite: a negative \<^verbatim>\<open>LIMIT\<close> is
  no limit, a negative \<^verbatim>\<open>OFFSET\<close> is offset 0.
\<close>

definition sql_limit :: "int \<Rightarrow> 'r list \<Rightarrow> 'r list" where
  "sql_limit n xs = (if n < 0 then xs else take (nat n) xs)"

definition sql_offset :: "int \<Rightarrow> 'r list \<Rightarrow> 'r list" where
  "sql_offset n xs = drop (nat n) xs"

section \<open>The conflict-safe write\<close>

definition commit_or_rollback :: "constraints \<Rightarrow> string \<Rightarrow> unit io" where
  "commit_or_rollback accepts error_msg = (\<lambda>s.
     case db_commit accepts s of
       (Inl IntegrityError, s') \<Rightarrow>
         io_bind db_rollback (\<lambda>_. io_raise (HTTPException 409 error_msg)) s'
     | (Inl e, s') \<Rightarrow> (Inl e, s')
     | (Inr u, s') \<Rightarrow> (Inr u, s'))"

section \<open>Courses\<close>

definition create_course :: "constraints \<Rightarrow> course_create \<Rightarrow> (nat \<times> course) io" where
  "create_course accepts course =
     io_bind (db_add CourseDB (\<lambda>k. \<lparr>c_key = k, c_code = cc_code course,
                c_name = cc_name course, c_credits = cc_credits course\<rparr>)) (\<lambda>row.
     io_bind (commit_or_rollback accepts ''Course already exists'') (\<lambda>_.
     io_bind (db_refresh CourseDB (c_id row)) (\<lambda>row.
     io_return (201, row))))"

definition list_courses :: "int option \<Rightarrow> int option \<Rightarrow> (nat \<times> course list) io" where
  "list_courses limit offset =
     (let limit = (case limit of None \<Rightarrow> 10 | Some n \<Rightarrow> n);
          offset = (case offset of None \<Rightarrow> 0 | Some n \<Rightarrow> n)
      in io_bind (db_execute [limit, offset] (\<lambda>st. sql_limit limit (sql_offset offset (sort_key c_id (courses st)))))
           (\<lambda>found. io_return (200, found)))"

definition get_course :: "int \<Rightarrow> (nat \<times> course) io" where
  "get_course course_id =
     io_bind (db_get CourseDB course_id) (\<lambda>row.
     case row of
       None \<Rightarrow> io_raise (HTTPException 404 ''Course not found'')
     | Some row \<Rightarrow> io_return (200, row))"

definition put_course :: "constraints \<Rightarrow> int \<Rightarrow> course_update_put \<Rightarrow> (nat \<times> course) io" where
  "put_course accepts course_id payload =
     io_bind (db_get CourseDB course_id) (\<lambda>row.
     case row of
       None \<Rightarrow> io_raise (HTTPException 404 ''Course not found'')
     | Some row \<Rightarrow>
         io_bind (db_set CourseDB course_id (\<lambda>r. r\<lparr>c_code := cput_code payload\<rparr>)) (\<lambda>_.
         io_bind (db_set CourseDB course_id (\<lambda>r. r\<lparr>c_name := cput_name payload\<rparr>)) (\<lambda>_.
         io_bind (db_set CourseDB course_id (\<lambda>r. r\<lparr>c_credits := cput_credits payload\<rparr>)) (\<lambda>_.
         io_bind (commit_or_rollback accepts ''Course update failed'') (\<lambda>_.
         io_bind (db_refresh CourseDB course_id) (\<lambda>row.
         io_return (200, row)))))))"

text \<open>
  \<^verbatim>\<open>for k, v in payload.model_dump(exclude_unset=True).items(): setattr(row, k, v)\<close>:
  one assignment for each field the payload sets.
\<close>

definition setattrs_course :: "course_update_patch \<Rightarrow> course \<Rightarrow> course" where
  "setattrs_course payload r =
     (let r = (case cpatch_code payload of None \<Rightarrow> r | Some v \<Rightarrow> r\<lparr>c_code := v\<rparr>);
          r = (case cpatch_name payload of None \<Rightarrow> r | Some v \<Rightarrow> r\<lparr>c_name := v\<rparr>);
          r = (case cpatch_credits payload of None \<Rightarrow> r | Some v \<Rightarrow> r\<lparr>c_credits := v\<rparr>)
      in r)"

definition patch_course :: "constraints \<Rightarrow> int \<Rightarrow> course_update_patch \<Rightarrow> (nat \<times> course) io" where
  "patch_course accepts course_id payload =
     io_bind (db_get CourseDB course_id) (\<lambda>row.
     case row of
       None \<Rightarrow> io_raise (HTTPException 404 ''Course not found'')
     | Some row \<Rightarrow>
         io_bind (db_set CourseDB course_id (setattrs_course payload)) (\<lambda>_.
         io_bind (commit_or_rollback accepts ''Course update failed'') (\<lambda>_.
         io_bind (db_refresh CourseDB course_id) (\<lambda>row.
         io_return (200, row)))))"

definition delete_course :: "constraints \<Rightarrow> int \<Rightarrow> (nat \<times> unit) io" where
  "delete_course accepts course_id =
     io_bind (db_get CourseDB course_id) (\<lambda>row.
     case row of
       None \<Rightarrow> io_raise (HTTPException 404 ''Course not found'')
     | Some row \<Rightarrow>
         io_bind (db_delete CourseDB (c_id row)) (\<lambda>_.
         io_bind (db_commit accepts) (\<lambda>_.
         io_return (204, ()))))"

section \<open>Projects\<close>

definition create_project :: "constraints \<Rightarrow> project_create \<Rightarrow> (nat \<times> project) io" where
  "create_project accepts project =
     io_bind (db_get UserDB (pc_owner_id project)) (\<lambda>owner.
     case owner of
       None \<Rightarrow> io_raise (HTTPException 404 ''User not found'')
     | Some owner \<Rightarrow>
         io_bind (db_add ProjectDB (\<lambda>k. \<lparr>p_key = k, p_name = pc_name project,
                    p_description = pc_description project,
                    p_owner_id = pc_owner_id project\<rparr>)) (\<lambda>row.
         io_bind (commit_or_rollback accepts ''Project creation failed'') (\<lambda>_.
         io_bind (db_refresh ProjectDB (p_id row)) (\<lambda>row.
         io_return (201, row)))))"

definition list_projects :: "(nat \<times> project list) io" where
  "list_projects =
     io_bind (db_execute [] (\<lambda>st. sort_key p_id (projects st))) (\<lambda>found.
     io_return (200, found))"

text \<open>
  The project is selected by id and its owner is loaded with it; \<^verbatim>\<open>scalar_one_or_none\<close>
  raises when more than one row matches.
\<close>

definition get_project_owner :: "int \<Rightarrow> (nat \<times> project \<times> user option) io" where
  "get_project_owner project_id =
     io_bind (db_execute [project_id] (\<lambda>st. filter (\<lambda>p. p_id p = project_id) (projects st))) (\<lambda>found.
     case found of
       [] \<Rightarrow> io_raise (HTTPException 404 ''Project not found'')
     | [row] \<Rightarrow>
         io_bind (db_get UserDB (p_owner_id row)) (\<lambda>owner.
         io_return (200, (row, owner)))
     | _ \<Rightarrow> io_raise MultipleResultsFound)"

definition put_project :: "constraints \<Rightarrow> int \<Rightarrow> project_update_put \<Rightarrow> (nat \<times> project) io" where
  "put_project accepts project_id payload =
     io_bind (db_get ProjectDB project_id) (\<lambda>row.
     case row of
       None \<Rightarrow> io_raise (HTTPException 404 ''Project not found'')
     | Some row \<Rightarrow>
         io_bind (if pput_owner_id payload \<noteq> p_owner_id row
                  then io_bind (db_get UserDB (pput_owner_id payload)) (\<lambda>owner.
                       case owner of
                         None \<Rightarrow> io_raise (HTTPException 404 ''Owner not found'')
                       | Some owner \<Rightarrow> io_return ())
                  else io_return ()) (\<lambda>_.
         io_bind (db_set ProjectDB project_id (\<lambda>r. r\<lparr>p_name := pput_name payload\<rparr>)) (\<lambda>_.
         io_bind (db_set ProjectDB project_id (\<lambda>r. r\<lparr>p_description := pput_description payload\<rparr>)) (\<lambda>_.
         io_bind (db_set ProjectDB project_id (\<lambda>r. r\<lparr>p_owner_id := pput_owner_id payload\<rparr>)) (\<lambda>_.
         io_bind (commit_or_rollback accepts ''Project update failed'') (\<lambda>_.
         io_bind (db_refresh ProjectDB project_id) (\<lambda>row.
         io_return (200, row))))))))"

definition setattrs_project :: "project_update_patch \<Rightarrow> project \<Rightarrow> project" where
  "setattrs_project data r =
     (let r = (case ppatch_name data of None \<Rightarrow> r | Some v \<Rightarrow> r\<lparr>p_name := v\<rparr>);
          r = (case ppatch_description data of None \<Rightarrow> r | Some v \<Rightarrow> r\<lparr>p_description := v\<rparr>);
          r = (case ppatch_owner_id data of None \<Rightarrow> r | Some v \<Rightarrow> r\<lparr>p_owner_id := v\<rparr>)
      in r)"

definition patch_project :: "constraints \<Rightarrow> int \<Rightarrow> project_update_patch \<Rightarrow> (nat \<times> project) io" where
  "patch_project accepts project_id payload =
     io_bind (db_get ProjectDB project_id) (\<lambda>row.
     case row of
       None \<Rightarrow> io_raise (HTTPException 404 ''Project not found'')
     | Some row \<Rightarrow>
         io_bind (case ppatch_owner_id payload of
                    None \<Rightarrow> io_return ()
                  | Some owner_id \<Rightarrow>
                      io_bind (db_get UserDB owner_id) (\<lambda>owner.
                      case owner of
                        None \<Rightarrow> io_raise (HTTPException 404 ''Owner not found'')
                      | Some owner \<Rightarrow> io_return ())) (\<lambda>_.
         io_bind (db_set ProjectDB project_id (setattrs_project payload)) (\<lambda>_.
         io_bind (commit_or_rollback accepts ''Project update failed'') (\<lambda>_.
         io_bind (db_refresh ProjectDB project_id) (\<lambda>row.
         io_return (200, row))))))"

definition delete_project :: "constraints \<Rightarrow> int \<Rightarrow> (nat \<times> unit) io" where
  "delete_project accepts project_id =
     io_bind (db_get ProjectDB project_id) (\<lambda>row.
     case row of
       None \<Rightarrow> io_raise (HTTPException 404 ''Project not found'')
     | Some row \<Rightarrow>
         io_bind (db_delete ProjectDB (p_id row)) (\<lambda>_.
         io_bind (db_commit accepts) (\<lambda>_.
         io_return (204, ()))))"

text \<open>The query has no \<^verbatim>\<open>order_by\<close>: the rows come in storage order.\<close>

definition get_user_projects :: "int \<Rightarrow> (nat \<times> project list) io" where
  "get_user_projects user_id =
     io_bind (db_execute [user_id] (\<lambda>st. filter (\<lambda>p. p_owner_id p = user_id) (projects st))) (\<lambda>found.
     io_return (200, found))"

definition create_user_project ::
    "constraints \<Rightarrow> int \<Rightarrow> project_create_for_user \<Rightarrow> (nat \<times> project) io" where
  "create_user_project accepts user_id project =
     io_bind (db_get UserDB user_id) (\<lambda>user.
     case user of
       None \<Rightarrow> io_raise (HTTPException 404 ''User not found'')
     | Some user \<Rightarrow>
         io_bind (db_add ProjectDB (\<lambda>k. \<lparr>p_key = k, p_name = pcu_name project,
                    p_description = pcu_description project, p_owner_id = user_id\<rparr>)) (\<lambda>row.
         io_bind (commit_or_rollback accepts ''Project creation failed'') (\<lambda>_.
         io_bind (db_refresh ProjectDB (p_id row)) (\<lambda>row.
         io_return (201, row)))))"

section \<open>Users\<close>

definition list_users :: "(nat \<times> user list) io" where
  "list_users =
     io_bind (db_execute [] (\<lambda>st. sort_key u_id (users st))) (\<lambda>found.
     io_return (200, found))"

definition get_user :: "int \<Rightarrow> (nat \<times> user) io" where
  "get_user user_id =
     io_bind (db_get UserDB user_id) (\<lambda>user.
     case user of
       None \<Rightarrow> io_raise (HTTPException 404 ''User not found'')
     | Some user \<Rightarrow> io_return (200, user))"

definition add_user :: "constraints \<Rightarrow> user_create \<Rightarrow> (nat \<times> user) io" where
  "add_user accepts payload =
     io_bind (db_add UserDB (\<lambda>k. \<lparr>u_key = k, u_name = uc_name payload,
                u_email = uc_email payload, u_age = uc_age payload,
                u_student_id = uc_student_id payload\<rparr>)) (\<lambda>user.
     io_bind (commit_or_rollback accepts ''User already exists'') (\<lambda>_.
     io_bind (db_refresh UserDB (u_id user)) (\<lambda>user.
     io_return (201, user))))"

definition delete_user :: "constraints \<Rightarrow> int \<Rightarrow> (nat \<times> unit) io" where
  "delete_user accepts user_id =
     io_bind (db_get UserDB user_id) (\<lambda>user.
     case user of
       None \<Rightarrow> io_raise (HTTPException 404 ''User not found'')
     | Some user \<Rightarrow>
         io_bind (db_delete UserDB (u_id user)) (\<lambda>_.
         io_bind (db_commit accepts) (\<lambda>_.
         io_return (204, ()))))"

definition put_user :: "constraints \<Rightarrow> int \<Rightarrow> user_update_put \<Rightarrow> (nat \<times> user) io" where
  "put_user accepts user_id payload =
     io_bind (db_get UserDB user_id) (\<lambda>user.
     case user of
       None \<Rightarrow> io_raise (HTTPException 404 ''User not found'')
     | Some user \<Rightarrow>
         io_bind (db_set UserDB user_id (\<lambda>r. r\<lparr>u_name := uput_name payload\<rparr>)) (\<lambda>_.
         io_bind (db_set UserDB user_id (\<lambda>r. r\<lparr>u_email := uput_email payload\<rparr>)) (\<lambda>_.
         io_bind (db_set UserDB user_id (\<lambda>r. r\<lparr>u_age := uput_age payload\<rparr>)) (\<lambda>_.
         io_bind (db_set UserDB user_id (\<lambda>r. r\<lparr>u_student_id := uput_student_id payload\<rparr>)) (\<lambda>_.
         io_bind (commit_or_rollback accepts ''User update failed'') (\<lambda>_.
         io_bind (db_refresh UserDB user_id) (\<lambda>user.
         io_return (200, user))))))))"

definition setattrs_user :: "user_update_patch \<Rightarrow> user \<Rightarrow> user" where
  "setattrs_user payload r =
     (let r = (case upatch_name payload of None \<Rightarrow> r | Some v \<Rightarrow> r\<lparr>u_name := v\<rparr>);
          r = (case upatch_email payload of None \<Rightarrow> r | Some v \<Rightarrow> r\<lparr>u_email := v\<rparr>);
          r = (case upatch_age payload of None \<Rightarrow> r | Some v \<Rightarrow> r\<lparr>u_age := v\<rparr>);
          r = (case upatch_student_id payload of None \<Rightarrow> r | Some v \<Rightarrow> r\<lparr>u_student_id := v\<rparr>)
      in r)"

definition patch_user :: "constraints \<Rightarrow> int \<Rightarrow> user_update_patch \<Rightarrow> (nat \<times> user) io" where
  "patch_user accepts user_id payload =
     io_bind (db_get UserDB user_id) (\<lambda>user.
     case user of
       None \<Rightarrow> io_raise (HTTPException 404 ''User not found'')
     | Some user \<Rightarrow>
         io_bind (db_set UserDB user_id (setattrs_user payload)) (\<lambda>_.
         io_bind (commit_or_rollback accepts ''User update failed'') (\<lambda>_.
         io_bind (db_refresh UserDB user_id) (\<lambda>user.
         io_return (200, user)))))"

section \<open>Outcomes of a write\<close>

text \<open>A store without constraints: it accepts every change.\<close>

definition accept_all :: constraints where
  "accept_all old new = True"

text \<open>
  What a store with constraints makes of a request, given the outcome \<open>free\<close> that the
  request has on the store without constraints: an error of the handler's own stays as
  it is; a success stays when it changes nothing or the store accepts the change;
  otherwise the response is \<open>refusal\<close> and the store is as it was.
\<close>

definition constrained ::
    "constraints \<Rightarrow> 'a response \<Rightarrow> store \<Rightarrow> 'a response \<times> store \<Rightarrow> 'a response \<times> store" where
  "constrained accepts refusal st free =
     (case free of
        (Response code body, st') \<Rightarrow>
          if st' = st \<or> accepts st st' then free else (refusal, st)
      | (ErrorResponse code detail, st') \<Rightarrow> free)"

section \<open>Example constraints and stores\<close>

text \<open>
  Modelled from the spec: the uniqueness constraints of the data model (primary keys,
  \<^verbatim>\<open>Course.code\<close>, \<^verbatim>\<open>User.email\<close>, \<^verbatim>\<open>User.student_id\<close>), as one instance of what a
  store may enforce. Owner references are not checked by it.
\<close>

definition unique_columns :: constraints where
  "unique_columns old new =
     (distinct (map c_id (courses new)) \<and> distinct (map c_code (courses new)) \<and>
      distinct (map u_id (users new)) \<and> distinct (map u_email (users new)) \<and>
      distinct (map u_student_id (users new)) \<and> distinct (map p_id (projects new)))"

text \<open>A stricter store, which also refuses a project whose owner does not exist.\<close>

definition foreign_keys_enforced :: constraints where
  "foreign_keys_enforced old new =
     (unique_columns old new \<and>
      list_all (\<lambda>p. List.find (\<lambda>u. u_id u = p_owner_id p) (users new) \<noteq> None) (projects new))"

text \<open>A store that refuses every change.\<close>

definition refuse_all :: constraints where
  "refuse_all old new = False"

definition empty_store :: store where
  "empty_store = \<lparr>courses = [], users = [], projects = []\<rparr>"

definition user_a :: user where
  "user_a = \<lparr>u_key = Abs_int64 1, u_name = ''A'', u_email = ''a@x.com'', u_age = 20, u_student_id = ''S1''\<rparr>"

definition user_b :: user where
  "user_b = \<lparr>u_key = Abs_int64 2, u_name = ''B'', u_email = ''b@x.com'', u_age = 21, u_student_id = ''S2''\<rparr>"

definition project_p :: project where
  "project_p = \<lparr>p_key = Abs_int64 1, p_name = ''P'', p_description = ''d'', p_owner_id = 1\<rparr>"

definition course_c :: course where
  "course_c = \<lparr>c_key = Abs_int64 1, c_code = ''CS1'', c_name = ''Intro'', c_credits = 5\<rparr>"

definition course_d :: course where
  "course_d = \<lparr>c_key = Abs_int64 3, c_code = ''CS3'', c_name = ''Logic'', c_credits = 5\<rparr>"

definition campus :: store where
  "campus = \<lparr>courses = [course_c], users = [user_a], projects = [project_p]\<rparr>"

text \<open>
  The store after three requests on the empty store: a user is created, a project is
  created for that user, and the user is deleted.
\<close>

definition after_owner_deleted :: store where
  "after_owner_deleted =
     snd (serve (delete_user unique_columns 1)
       (snd (serve (create_project unique_columns
                      \<lparr>pc_name = ''P'', pc_description = ''d'', pc_owner = Abs_int64 1\<rparr>)
         (snd (serve (add_user unique_columns
                        \<lparr>uc_name = ''A'', uc_email = ''a@x.com'', uc_age = 20,
                         uc_student_id = ''S1''\<rparr>)
            empty_store)))))"

section \<open>Lists of rows\<close>

lemmas io_defs = io_return_def io_raise_def io_bind_def db_get_def db_add_def db_set_def
  db_delete_def db_commit_def db_rollback_def db_refresh_def db_execute_def
  commit_or_rollback_def flush_ok_def serve_def get_db_def close_def
  CourseDB_def UserDB_def ProjectDB_def

lemma in_int64_Rep [simp]: "in_int64 (Rep_int64 k)"
  using Rep_int64 [of k] by (simp add: in_int64_def)

lemma Rep_Abs_int64 [simp]: "in_int64 i \<Longrightarrow> Rep_int64 (Abs_int64 i) = i"
  by (simp add: Abs_int64_inverse in_int64_def)

lemma in_int64_numeral [simp]:
  "in_int64 0" "in_int64 1" "in_int64 (numeral n) = (numeral n < (2 ^ 63 :: int))"
  by (simp_all add: in_int64_def)

lemma ids_in_int64 [simp]:
  "in_int64 (c_id c)" "in_int64 (u_id u)" "in_int64 (p_id p)"
  "in_int64 (pc_owner_id pc)" "in_int64 (pput_owner_id pput)"
  by (simp_all add: c_id_def u_id_def p_id_def pc_owner_id_def pput_owner_id_def)

lemma ppatch_owner_in_int64: "ppatch_owner_id ppatch = Some v \<Longrightarrow> in_int64 v"
  by (auto simp add: ppatch_owner_id_def)

lemma id_of_update [simp]:
  "c_id (c_code_update fs c) = c_id c" "c_id (c_name_update fs c) = c_id c"
  "c_id (c_credits_update fi c) = c_id c"
  "u_id (u_name_update fs u) = u_id u" "u_id (u_email_update fs u) = u_id u"
  "u_id (u_age_update fi u) = u_id u" "u_id (u_student_id_update fs u) = u_id u"
  "p_id (p_name_update fs p) = p_id p" "p_id (p_description_update fs p) = p_id p"
  "p_id (p_owner_id_update fi p) = p_id p"
  by (simp_all add: c_id_def u_id_def p_id_def)

lemma id_of_row [simp]:
  "c_id \<lparr>c_key = k, c_code = a, c_name = b, c_credits = n\<rparr> = Rep_int64 k"
  "u_id \<lparr>u_key = k, u_name = a, u_email = b, u_age = n, u_student_id = d\<rparr> = Rep_int64 k"
  "p_id \<lparr>p_key = k, p_name = a, p_description = b, p_owner_id = n\<rparr> = Rep_int64 k"
  by (simp_all add: c_id_def u_id_def p_id_def)

lemma owner_of_payload [simp]:
  "pc_owner_id \<lparr>pc_name = a, pc_description = b, pc_owner = k\<rparr> = Rep_int64 k"
  "pput_owner_id \<lparr>pput_name = a, pput_description = b, pput_owner = k\<rparr> = Rep_int64 k"
  "ppatch_owner_id \<lparr>ppatch_name = oa, ppatch_description = ob, ppatch_owner = ok\<rparr>
     = map_option Rep_int64 ok"
  by (simp_all add: pc_owner_id_def pput_owner_id_def ppatch_owner_id_def)

lemma find_out_of_range:
  "\<not> in_int64 i \<Longrightarrow> List.find (\<lambda>r. c_id r = i) cs = None"
  "\<not> in_int64 i \<Longrightarrow> List.find (\<lambda>r. u_id r = i) us = None"
  "\<not> in_int64 i \<Longrightarrow> List.find (\<lambda>r. p_id r = i) ps = None"
  by (auto simp add: find_None_iff)

lemma find_set_row:
  assumes "\<And>r. key (f r) = key r"
  shows "List.find (\<lambda>r. key r = i) (map (\<lambda>r. if key r = i then f r else r) rs)
         = map_option f (List.find (\<lambda>r. key r = i) rs)"
  using assms by (induction rs) auto

lemma find_set_other:
  assumes "\<And>r. key (f r) = key r" and "j \<noteq> i"
  shows "List.find (\<lambda>r. key r = j) (map (\<lambda>r. if key r = i then f r else r) rs)
         = List.find (\<lambda>r. key r = j) rs"
  using assms by (induction rs) auto

lemma find_deleted: "List.find (\<lambda>r. key r = i) (filter (\<lambda>r. key r \<noteq> i) rs) = None"
  by (induction rs) auto

lemma filter_deleted: "filter (\<lambda>r. key r = i) (filter (\<lambda>r. key r \<noteq> i) rs) = []"
  by (induction rs) auto

lemma find_key: "List.find (\<lambda>r. key r = i) rs = Some r \<Longrightarrow> key r = i"
  by (induction rs) (auto split: if_splits)

lemma fold_max_lower: "(a::int) \<le> fold max xs a"
  by (induction xs arbitrary: a) (auto intro: order_trans [OF max.cobounded2])

lemma fold_max_upper: "x \<in> set xs \<Longrightarrow> (x::int) \<le> fold max xs a"
proof (induction xs arbitrary: a)
  case Nil
  then show ?case by simp
next
  case (Cons y ys)
  show ?case
  proof (cases "x = y")
    case True
    have "max y a \<le> fold max ys (max y a)" by (rule fold_max_lower)
    with True show ?thesis by simp
  next
    case False
    with Cons show ?thesis by simp
  qed
qed

lemma find_app:
  "List.find P (xs @ ys) = (case List.find P xs of None \<Rightarrow> List.find P ys | Some x \<Rightarrow> Some x)"
  by (induction xs) auto

lemma find_fresh:
  fixes key :: "'r \<Rightarrow> int"
  shows "List.find (\<lambda>r. key r = fold max (map key rs) 0 + 1) (rs @ [row]) =
     (if key row = fold max (map key rs) 0 + 1 then Some row else None)"
proof -
  have "\<And>r. r \<in> set rs \<Longrightarrow> key r \<noteq> fold max (map key rs) 0 + 1"
    using fold_max_upper [of _ "map key rs" 0] by fastforce
  then have "List.find (\<lambda>r. key r = fold max (map key rs) 0 + 1) rs = None"
    by (simp add: find_None_iff)
  then show ?thesis
    by (simp add: find_app)
qed

lemma set_twice:
  assumes "\<And>r. key (g r) = key r"
  shows "map (\<lambda>r. if key r = i then f r else r) (map (\<lambda>r. if key r = i then g r else r) rs)
         = map (\<lambda>r. if key r = i then f (g r) else r) rs"
  using assms by (induction rs) auto

lemma set_unchanged:
  "map (\<lambda>r. if key r = i then f r else r) rs = rs \<Longrightarrow> List.find (\<lambda>r. key r = i) rs = Some x
   \<Longrightarrow> f x = x"
  by (induction rs) (auto split: if_splits)

lemma courses_unchanged: "(st\<lparr>courses := xs\<rparr> = st) = (xs = courses st)"
  by (cases st) simp

lemma users_unchanged: "(st\<lparr>users := xs\<rparr> = st) = (xs = users st)"
  by (cases st) simp

lemma projects_unchanged: "(st\<lparr>projects := xs\<rparr> = st) = (xs = projects st)"
  by (cases st) simp

lemmas unchanged = courses_unchanged users_unchanged projects_unchanged

lemma found_in_range:
  "List.find (\<lambda>r. c_id r = i) cs = Some c \<Longrightarrow> in_int64 i"
  "List.find (\<lambda>r. u_id r = i) us = Some u \<Longrightarrow> in_int64 i"
  "List.find (\<lambda>r. p_id r = i) ps = Some p \<Longrightarrow> in_int64 i"
  by (auto dest: find_key)

lemma c_id_setattrs [simp]: "c_id (setattrs_course payload r) = c_id r"
  by (simp add: setattrs_course_def Let_def split: option.splits)

lemma u_id_setattrs [simp]: "u_id (setattrs_user payload r) = u_id r"
  by (simp add: setattrs_user_def Let_def split: option.splits)

lemma p_id_setattrs [simp]: "p_id (setattrs_project payload r) = p_id r"
  by (simp add: setattrs_project_def Let_def split: option.splits)

lemma filter_shrinks: "List.find (\<lambda>r. key r = i) rs = Some row \<Longrightarrow> filter (\<lambda>r. key r \<noteq> i) rs \<noteq> rs"
  by (metis find_deleted option.distinct(1))

lemma serve_create_course:
  "serve (create_course accepts course) st =
        (if in_int64 (next_id CourseDB st) then
          (let row = \<lparr>c_key = Abs_int64 (next_id CourseDB st), c_code = cc_code course,
                 c_name = cc_name course, c_credits = cc_credits course\<rparr>;
               st' = st\<lparr>courses := courses st @ [row]\<rparr>
           in if accepts st st' then (Response 201 row, st')
              else (ErrorResponse 409 ''Course already exists'', st))
        else (ErrorResponse 500 ''Internal Server Error'', st))"
  by (simp add: create_course_def io_defs Let_def next_id_def find_fresh unchanged split: option.splits)

lemma serve_create_project:
  "serve (create_project accepts project) st =
     (case List.find (\<lambda>u. u_id u = pc_owner_id project) (users st) of
        None \<Rightarrow> (ErrorResponse 404 ''User not found'', st)
      | Some owner \<Rightarrow>
        (if in_int64 (next_id ProjectDB st) then
          (let row = \<lparr>p_key = Abs_int64 (next_id ProjectDB st), p_name = pc_name project,
                      p_description = pc_description project, p_owner_id = pc_owner_id project\<rparr>;
               st' = st\<lparr>projects := projects st @ [row]\<rparr>
           in if accepts st st' then (Response 201 row, st')
              else (ErrorResponse 409 ''Project creation failed'', st))
        else (ErrorResponse 500 ''Internal Server Error'', st)))"
  by (simp add: create_project_def io_defs Let_def next_id_def find_fresh unchanged split: option.splits)

lemma serve_create_user_project:
  "serve (create_user_project accepts uid project) st =
     (case List.find (\<lambda>u. u_id u = uid) (users st) of
        None \<Rightarrow> (if in_int64 uid then (ErrorResponse 404 ''User not found'', st)
                 else (ErrorResponse 500 ''Internal Server Error'', st))
      | Some owner \<Rightarrow>
        (if in_int64 (next_id ProjectDB st) then
          (let row = \<lparr>p_key = Abs_int64 (next_id ProjectDB st), p_name = pcu_name project,
                      p_description = pcu_description project, p_owner_id = uid\<rparr>;
               st' = st\<lparr>projects := projects st @ [row]\<rparr>
           in if accepts st st' then (Response 201 row, st')
              else (ErrorResponse 409 ''Project creation failed'', st))
        else (ErrorResponse 500 ''Internal Server Error'', st)))"
proof (cases "in_int64 uid")
  case True
  then show ?thesis
    by (simp add: create_user_project_def io_defs Let_def next_id_def find_fresh unchanged
        split: option.splits)
next
  case False
  then show ?thesis
    by (simp add: create_user_project_def io_defs find_out_of_range)
qed

lemma serve_add_user:
  "serve (add_user accepts payload) st =
        (if in_int64 (next_id UserDB st) then
          (let row = \<lparr>u_key = Abs_int64 (next_id UserDB st), u_name = uc_name payload, u_email = uc_email payload,
                 u_age = uc_age payload, u_student_id = uc_student_id payload\<rparr>;
               st' = st\<lparr>users := users st @ [row]\<rparr>
           in if accepts st st' then (Response 201 row, st')
              else (ErrorResponse 409 ''User already exists'', st))
        else (ErrorResponse 500 ''Internal Server Error'', st))"
  by (simp add: add_user_def io_defs Let_def next_id_def find_fresh unchanged split: option.splits)

lemma serve_put_course:
  "serve (put_course accepts cid payload) st =
     (case List.find (\<lambda>r. c_id r = cid) (courses st) of
        None \<Rightarrow> (if in_int64 cid then (ErrorResponse 404 ''Course not found'', st)
                 else (ErrorResponse 500 ''Internal Server Error'', st))
      | Some row \<Rightarrow>
          (let f = (\<lambda>r. r\<lparr>c_code := cput_code payload, c_name := cput_name payload,
                          c_credits := cput_credits payload\<rparr>);
               st' = st\<lparr>courses := map (\<lambda>r. if c_id r = cid then f r else r) (courses st)\<rparr>
           in if st' = st \<or> accepts st st' then (Response 200 (f row), st')
              else (ErrorResponse 409 ''Course update failed'', st)))"
proof (cases "in_int64 cid")
  case True
  then show ?thesis
    by (auto simp add: put_course_def io_defs Let_def find_set_row set_twice unchanged
        split: option.splits simp del: map_map dest: set_unchanged)
next
  case False
  then show ?thesis
    by (simp add: put_course_def io_defs find_out_of_range)
qed

lemma serve_patch_course:
  "serve (patch_course accepts cid payload) st =
     (case List.find (\<lambda>r. c_id r = cid) (courses st) of
        None \<Rightarrow> (if in_int64 cid then (ErrorResponse 404 ''Course not found'', st)
                 else (ErrorResponse 500 ''Internal Server Error'', st))
      | Some row \<Rightarrow>
          (let st' = st\<lparr>courses := map (\<lambda>r. if c_id r = cid then setattrs_course payload r else r) (courses st)\<rparr>
           in if st' = st \<or> accepts st st' then (Response 200 (setattrs_course payload row), st')
              else (ErrorResponse 409 ''Course update failed'', st)))"
proof (cases "in_int64 cid")
  case True
  then show ?thesis
    by (auto simp add: patch_course_def io_defs Let_def find_set_row  unchanged
        split: option.splits simp del: map_map dest: set_unchanged)
next
  case False
  then show ?thesis
    by (simp add: patch_course_def io_defs find_out_of_range)
qed

lemma serve_put_project:
  "serve (put_project accepts pid payload) st =
     (case List.find (\<lambda>r. p_id r = pid) (projects st) of
        None \<Rightarrow> (if in_int64 pid then (ErrorResponse 404 ''Project not found'', st)
                 else (ErrorResponse 500 ''Internal Server Error'', st))
      | Some row \<Rightarrow>
          if pput_owner_id payload \<noteq> p_owner_id row \<and>
             List.find (\<lambda>u. u_id u = pput_owner_id payload) (users st) = None
          then (ErrorResponse 404 ''Owner not found'', st)
          else
          (let f = (\<lambda>r. r\<lparr>p_name := pput_name payload, p_description := pput_description payload,
                          p_owner_id := pput_owner_id payload\<rparr>);
               st' = st\<lparr>projects := map (\<lambda>r. if p_id r = pid then f r else r) (projects st)\<rparr>
           in if st' = st \<or> accepts st st' then (Response 200 (f row), st')
              else (ErrorResponse 409 ''Project update failed'', st)))"
proof (cases "in_int64 pid")
  case True
  then show ?thesis
    by (auto simp add: put_project_def io_defs Let_def find_set_row set_twice unchanged
        split: option.splits simp del: map_map dest: set_unchanged)
next
  case False
  then show ?thesis
    by (simp add: put_project_def io_defs find_out_of_range)
qed

lemma serve_patch_project:
  "serve (patch_project accepts pid payload) st =
     (case List.find (\<lambda>r. p_id r = pid) (projects st) of
        None \<Rightarrow> (if in_int64 pid then (ErrorResponse 404 ''Project not found'', st)
                 else (ErrorResponse 500 ''Internal Server Error'', st))
      | Some row \<Rightarrow>
          if (case ppatch_owner_id payload of None \<Rightarrow> False
              | Some oid \<Rightarrow> List.find (\<lambda>u. u_id u = oid) (users st) = None)
          then (ErrorResponse 404 ''Owner not found'', st)
          else
          (let st' = st\<lparr>projects := map (\<lambda>r. if p_id r = pid then setattrs_project payload r else r) (projects st)\<rparr>
           in if st' = st \<or> accepts st st' then (Response 200 (setattrs_project payload row), st')
              else (ErrorResponse 409 ''Project update failed'', st)))"
proof (cases "in_int64 pid")
  case True
  then show ?thesis
    by (auto simp add: patch_project_def io_defs Let_def find_set_row  unchanged
        split: option.splits simp del: map_map dest: set_unchanged ppatch_owner_in_int64)
next
  case False
  then show ?thesis
    by (simp add: patch_project_def io_defs find_out_of_range)
qed

lemma serve_put_user:
  "serve (put_user accepts uid payload) st =
     (case List.find (\<lambda>r. u_id r = uid) (users st) of
        None \<Rightarrow> (if in_int64 uid then (ErrorResponse 404 ''User not found'', st)
                 else (ErrorResponse 500 ''Internal Server Error'', st))
      | Some row \<Rightarrow>
          (let f = (\<lambda>r. r\<lparr>u_name := uput_name payload, u_email := uput_email payload,
                          u_age := uput_age payload, u_student_id := uput_student_id payload\<rparr>);
               st' = st\<lparr>users := map (\<lambda>r. if u_id r = uid then f r else r) (users st)\<rparr>
           in if st' = st \<or> accepts st st' then (Response 200 (f row), st')
              else (ErrorResponse 409 ''User update failed'', st)))"
proof (cases "in_int64 uid")
  case True
  then show ?thesis
    by (auto simp add: put_user_def io_defs Let_def find_set_row set_twice unchanged
        split: option.splits simp del: map_map dest: set_unchanged)
next
  case False
  then show ?thesis
    by (simp add: put_user_def io_defs find_out_of_range)
qed

lemma serve_patch_user:
  "serve (patch_user accepts uid payload) st =
     (case List.find (\<lambda>r. u_id r = uid) (users st) of
        None \<Rightarrow> (if in_int64 uid then (ErrorResponse 404 ''User not found'', st)
                 else (ErrorResponse 500 ''Internal Server Error'', st))
      | Some row \<Rightarrow>
          (let st' = st\<lparr>users := map (\<lambda>r. if u_id r = uid then setattrs_user payload r else r) (users st)\<rparr>
           in if st' = st \<or> accepts st st' then (Response 200 (setattrs_user payload row), st')
              else (ErrorResponse 409 ''User update failed'', st)))"
proof (cases "in_int64 uid")
  case True
  then show ?thesis
    by (auto simp add: patch_user_def io_defs Let_def find_set_row  unchanged
        split: option.splits simp del: map_map dest: set_unchanged)
next
  case False
  then show ?thesis
    by (simp add: patch_user_def io_defs find_out_of_range)
qed

lemma serve_delete_course:
  "serve (delete_course accepts cid) st =
     (case List.find (\<lambda>r. c_id r = cid) (courses st) of
        None \<Rightarrow> (if in_int64 cid then (ErrorResponse 404 ''Course not found'', st)
                 else (ErrorResponse 500 ''Internal Server Error'', st))
      | Some row \<Rightarrow>
          (let st' = st\<lparr>courses := filter (\<lambda>r. c_id r \<noteq> cid) (courses st)\<rparr>
           in if accepts st st' then (Response 204 (), st')
              else (ErrorResponse 500 ''Internal Server Error'', st)))"
proof (cases "List.find (\<lambda>r. c_id r = cid) (courses st)")
  case None
  then show ?thesis
    by (simp add: delete_course_def io_defs)
next
  case (Some row)
  have "c_id row = cid"
    using Some by (rule find_key)
  moreover have "in_int64 cid"
    using Some by (rule found_in_range)
  moreover have "filter (\<lambda>r. c_id r \<noteq> cid) (courses st) \<noteq> courses st"
    using Some by (rule filter_shrinks)
  ultimately show ?thesis
    using Some by (simp add: delete_course_def io_defs Let_def unchanged)
qed

lemma serve_delete_project:
  "serve (delete_project accepts pid) st =
     (case List.find (\<lambda>r. p_id r = pid) (projects st) of
        None \<Rightarrow> (if in_int64 pid then (ErrorResponse 404 ''Project not found'', st)
                 else (ErrorResponse 500 ''Internal Server Error'', st))
      | Some row \<Rightarrow>
          (let st' = st\<lparr>projects := filter (\<lambda>r. p_id r \<noteq> pid) (projects st)\<rparr>
           in if accepts st st' then (Response 204 (), st')
              else (ErrorResponse 500 ''Internal Server Error'', st)))"
proof (cases "List.find (\<lambda>r. p_id r = pid) (projects st)")
  case None
  then show ?thesis
    by (simp add: delete_project_def io_defs)
next
  case (Some row)
  have "p_id row = pid"
    using Some by (rule find_key)
  moreover have "in_int64 pid"
    using Some by (rule found_in_range)
  moreover have "filter (\<lambda>r. p_id r \<noteq> pid) (projects st) \<noteq> projects st"
    using Some by (rule filter_shrinks)
  ultimately show ?thesis
    using Some by (simp add: delete_project_def io_defs Let_def unchanged)
qed

lemma serve_delete_user:
  "serve (delete_user accepts uid) st =
     (case List.find (\<lambda>r. u_id r = uid) (users st) of
        None \<Rightarrow> (if in_int64 uid then (ErrorResponse 404 ''User not found'', st)
                 else (ErrorResponse 500 ''Internal Server Error'', st))
      | Some row \<Rightarrow>
          (let st' = st\<lparr>users := filter (\<lambda>r. u_id r \<noteq> uid) (users st)\<rparr>
           in if accepts st st' then (Response 204 (), st')
              else (ErrorResponse 500 ''Internal Server Error'', st)))"
proof (cases "List.find (\<lambda>r. u_id r = uid) (users st)")
  case None
  then show ?thesis
    by (simp add: delete_user_def io_defs)
next
  case (Some row)
  have "u_id row = uid"
    using Some by (rule find_key)
  moreover have "in_int64 uid"
    using Some by (rule found_in_range)
  moreover have "filter (\<lambda>r. u_id r \<noteq> uid) (users st) \<noteq> users st"
    using Some by (rule filter_shrinks)
  ultimately show ?thesis
    using Some by (simp add: delete_user_def io_defs Let_def unchanged)
qed

lemma serve_get_course:
  "serve (get_course cid) st =
     (case List.find (\<lambda>r. c_id r = cid) (courses st) of
        None \<Rightarrow> (if in_int64 cid then (ErrorResponse 404 ''Course not found'', st)
                 else (ErrorResponse 500 ''Internal Server Error'', st))
      | Some row \<Rightarrow> (Response 200 row, st))"
  by (cases "in_int64 cid")
    (simp_all add: get_course_def io_defs find_out_of_range split: option.splits)

lemma serve_get_user:
  "serve (get_user uid) st =
     (case List.find (\<lambda>r. u_id r = uid) (users st) of
        None \<Rightarrow> (if in_int64 uid then (ErrorResponse 404 ''User not found'', st)
                 else (ErrorResponse 500 ''Internal Server Error'', st))
      | Some row \<Rightarrow> (Response 200 row, st))"
  by (cases "in_int64 uid")
    (simp_all add: get_user_def io_defs find_out_of_range split: option.splits)

lemma serve_get_project_owner_absent:
  "in_int64 pid \<Longrightarrow> filter (\<lambda>p. p_id p = pid) (projects st) = [] \<Longrightarrow>
     serve (get_project_owner pid) st = (ErrorResponse 404 ''Project not found'', st)"
  by (simp add: get_project_owner_def io_defs)

lemma serve_get_user_projects:
  "serve (get_user_projects uid) st =
     (if in_int64 uid
      then (Response 200 (filter (\<lambda>p. p_owner_id p = uid) (projects st)), st)
      else (ErrorResponse 500 ''Internal Server Error'', st))"
  by (simp add: get_user_projects_def io_defs)

lemma serve_list_projects:
  "serve list_projects st = (Response 200 (sort_key p_id (projects st)), st)"
  by (simp add: list_projects_def io_defs)

lemma serve_list_courses:
  "serve (list_courses limit offset) st =
     (let l = (case limit of None \<Rightarrow> 10 | Some n \<Rightarrow> n);
          k = (case offset of None \<Rightarrow> 0 | Some n \<Rightarrow> n)
      in if in_int64 l \<and> in_int64 k
         then (Response 200 (sql_limit l (sql_offset k (sort_key c_id (courses st)))), st)
         else (ErrorResponse 500 ''Internal Server Error'', st))"
  by (simp add: list_courses_def io_defs Let_def)

lemma after_owner_deleted_store:
  "after_owner_deleted = \<lparr>courses = [], users = [], projects = [project_p]\<rparr>"
  by (simp add: after_owner_deleted_def serve_add_user serve_create_project serve_delete_user
      Let_def next_id_def UserDB_def ProjectDB_def unique_columns_def empty_store_def
      project_p_def)

text \<open>
  C1. The conflict-safe write. When the store reports a violation at the commit, the
  pending change is undone entirely (the working copy is the committed store again, and
  the store that the session leaves behind is the committed one) and the call fails with
  \<^verbatim>\<open>HTTPException(409)\<close> carrying exactly the message it was given. When the commit
  succeeds, no exception is raised and the pending change is the durable store.
\<close>

theorem commit_or_rollback_conflict:
  "(\<not> flush_ok accepts s \<longrightarrow>
      commit_or_rollback accepts error_msg s =
        (Inl (HTTPException 409 error_msg), s\<lparr>pending := committed s\<rparr>) \<and>
      close (snd (commit_or_rollback accepts error_msg s)) = committed s) \<and>
   (flush_ok accepts s \<longrightarrow>
      commit_or_rollback accepts error_msg s = (Inr (), s\<lparr>committed := pending s\<rparr>) \<and>
      close (snd (commit_or_rollback accepts error_msg s)) = pending s)"
  by (simp add: commit_or_rollback_def db_commit_def db_rollback_def io_bind_def io_raise_def
      close_def)

theorem commit_or_rollback_conflict_witness:
  "commit_or_rollback unique_columns ''Course already exists''
     \<lparr>committed = campus, pending = campus\<lparr>courses := [course_c, course_c\<lparr>c_key := Abs_int64 2\<rparr>]\<rparr>\<rparr>
     = (Inl (HTTPException 409 ''Course already exists''), \<lparr>committed = campus, pending = campus\<rparr>) \<and>
   commit_or_rollback unique_columns ''Course already exists''
     \<lparr>committed = empty_store, pending = campus\<rparr>
     = (Inr (), \<lparr>committed = campus, pending = campus\<rparr>)"
proof -
  let ?bad = "\<lparr>committed = campus, pending = campus\<lparr>courses := [course_c, course_c\<lparr>c_key := Abs_int64 2\<rparr>]\<rparr>\<rparr>"
  let ?good = "\<lparr>committed = empty_store, pending = campus\<rparr>"
  have bad: "\<not> flush_ok unique_columns ?bad"
    by (simp add: flush_ok_def unique_columns_def campus_def course_c_def)
  have good: "flush_ok unique_columns ?good"
    by (simp add: flush_ok_def unique_columns_def campus_def course_c_def user_a_def project_p_def)
  from bad good
    commit_or_rollback_conflict [of unique_columns ?bad "''Course already exists''"]
    commit_or_rollback_conflict [of unique_columns ?good "''Course already exists''"]
  show ?thesis by simp
qed

text \<open>
  C2. \<^verbatim>\<open>POST /api/projects\<close> checks the owner before any insert: when no user has the
  body's \<^verbatim>\<open>owner_id\<close>, the response is 404 "User not found", the store is unchanged, and
  the project listing after the request is the listing before it.
\<close>

theorem create_project_unknown_owner:
  assumes "List.find (\<lambda>u. u_id u = pc_owner_id project) (users st) = None"
  shows "serve (create_project accepts project) st = (ErrorResponse 404 ''User not found'', st) \<and>
         fst (serve list_projects (snd (serve (create_project accepts project) st)))
           = fst (serve list_projects st)"
  using assms by (simp add: serve_create_project)

theorem create_project_unknown_owner_witness:
  "serve (create_project unique_columns
            \<lparr>pc_name = ''Q'', pc_description = ''e'', pc_owner = Abs_int64 999\<rparr>) campus
     = (ErrorResponse 404 ''User not found'', campus) \<and>
   fst (serve list_projects (snd (serve (create_project unique_columns
            \<lparr>pc_name = ''Q'', pc_description = ''e'', pc_owner = Abs_int64 999\<rparr>) campus)))
     = Response 200 [project_p]"
proof -
  let ?body = "\<lparr>pc_name = ''Q'', pc_description = ''e'', pc_owner = Abs_int64 999\<rparr>"
  have absent: "List.find (\<lambda>u. u_id u = pc_owner_id ?body) (users campus) = None"
    by (simp add: campus_def user_a_def)
  have "fst (serve list_projects campus) = Response 200 [project_p]"
    by (simp add: serve_list_projects campus_def)
  with create_project_unknown_owner [OF absent, of unique_columns]
  show ?thesis by simp
qed

text \<open>
  C3. \<^verbatim>\<open>PATCH /api/projects/{id}\<close> on an existing project whose payload sets
  \<^verbatim>\<open>owner_id\<close>: when no user has that id, whether or not it differs from the current
  owner, the response is 404 "Owner not found" and the store is unchanged, so no other
  field of the payload has been applied.
\<close>

theorem patch_project_unknown_owner:
  assumes "List.find (\<lambda>p. p_id p = project_id) (projects st) = Some row"
    and "ppatch_owner_id payload = Some owner_id"
    and "List.find (\<lambda>u. u_id u = owner_id) (users st) = None"
  shows "serve (patch_project accepts project_id payload) st
           = (ErrorResponse 404 ''Owner not found'', st)"
  using assms by (simp add: serve_patch_project)

theorem patch_project_unknown_owner_witness:
  "serve (patch_project unique_columns 1
            \<lparr>ppatch_name = Some ''X'', ppatch_description = None, ppatch_owner = Some (Abs_int64 999)\<rparr>)
         campus = (ErrorResponse 404 ''Owner not found'', campus) \<and>
   serve (patch_project unique_columns 1
            \<lparr>ppatch_name = Some ''X'', ppatch_description = None, ppatch_owner = Some (Abs_int64 1)\<rparr>)
         after_owner_deleted = (ErrorResponse 404 ''Owner not found'', after_owner_deleted)"
proof -
  have p1: "List.find (\<lambda>p. p_id p = 1) (projects campus) = Some project_p"
    by (simp add: campus_def project_p_def)
  have u1: "List.find (\<lambda>u. u_id u = 999) (users campus) = None"
    by (simp add: campus_def user_a_def)
  have p2: "List.find (\<lambda>p. p_id p = 1) (projects after_owner_deleted) = Some project_p"
    by (simp add: after_owner_deleted_store project_p_def)
  have u2: "List.find (\<lambda>u. u_id u = 1) (users after_owner_deleted) = None"
    by (simp add: after_owner_deleted_store)
  show ?thesis
    using patch_project_unknown_owner [OF p1 _ u1, of
        "\<lparr>ppatch_name = Some ''X'', ppatch_description = None, ppatch_owner = Some (Abs_int64 999)\<rparr>"
        unique_columns]
      patch_project_unknown_owner [OF p2 _ u2, of
        "\<lparr>ppatch_name = Some ''X'', ppatch_description = None, ppatch_owner = Some (Abs_int64 1)\<rparr>"
        unique_columns]
    by simp
qed

text \<open>
  C4. \<^verbatim>\<open>PUT /api/projects/{id}\<close> on an existing project checks the owner exactly when
  the payload's \<^verbatim>\<open>owner_id\<close> differs from the current one. When it differs and no such
  user exists, the response is 404 "Owner not found" and nothing is applied. When it is
  the current owner, or the new owner exists, the update proceeds: all three fields are
  written and committed through the conflict-safe write, whether or not a user with the
  current owner's id exists.
\<close>

theorem put_project_owner_check:
  assumes "List.find (\<lambda>p. p_id p = project_id) (projects st) = Some row"
  shows
    "(pput_owner_id payload \<noteq> p_owner_id row \<and>
      List.find (\<lambda>u. u_id u = pput_owner_id payload) (users st) = None \<longrightarrow>
        serve (put_project accepts project_id payload) st
          = (ErrorResponse 404 ''Owner not found'', st)) \<and>
     (pput_owner_id payload = p_owner_id row \<or>
      List.find (\<lambda>u. u_id u = pput_owner_id payload) (users st) \<noteq> None \<longrightarrow>
        serve (put_project accepts project_id payload) st
          = (let f = (\<lambda>r. r\<lparr>p_name := pput_name payload,
                               p_description := pput_description payload,
                               p_owner_id := pput_owner_id payload\<rparr>);
                 st' = st\<lparr>projects := map (\<lambda>r. if p_id r = project_id then f r else r)
                                          (projects st)\<rparr>
             in if st' = st \<or> accepts st st' then (Response 200 (f row), st')
                else (ErrorResponse 409 ''Project update failed'', st)))"
proof -
  let ?missing = "pput_owner_id payload \<noteq> p_owner_id row \<and>
      List.find (\<lambda>u. u_id u = pput_owner_id payload) (users st) = None"
  let ?updated = "let f = (\<lambda>r. r\<lparr>p_name := pput_name payload,
                               p_description := pput_description payload,
                               p_owner_id := pput_owner_id payload\<rparr>);
                 st' = st\<lparr>projects := map (\<lambda>r. if p_id r = project_id then f r else r)
                                          (projects st)\<rparr>
             in if st' = st \<or> accepts st st' then (Response 200 (f row), st')
                else (ErrorResponse 409 ''Project update failed'', st)"
  have outcome: "serve (put_project accepts project_id payload) st
      = (if ?missing then (ErrorResponse 404 ''Owner not found'', st) else ?updated)"
    using assms by (simp add: serve_put_project)
  show ?thesis
  proof (intro conjI impI)
    assume ?missing
    then show "serve (put_project accepts project_id payload) st
        = (ErrorResponse 404 ''Owner not found'', st)"
      unfolding outcome by (rule if_P)
  next
    assume "pput_owner_id payload = p_owner_id row \<or>
      List.find (\<lambda>u. u_id u = pput_owner_id payload) (users st) \<noteq> None"
    then have "\<not> ?missing" by auto
    then show "serve (put_project accepts project_id payload) st = ?updated"
      unfolding outcome by (rule if_not_P)
  qed
qed

theorem put_project_owner_check_witness:
  "serve (put_project unique_columns 1
            \<lparr>pput_name = ''P2'', pput_description = ''d2'', pput_owner = Abs_int64 2\<rparr>)
         after_owner_deleted = (ErrorResponse 404 ''Owner not found'', after_owner_deleted) \<and>
   serve (put_project unique_columns 1
            \<lparr>pput_name = ''P2'', pput_description = ''d2'', pput_owner = Abs_int64 1\<rparr>)
         after_owner_deleted
     = (Response 200 \<lparr>p_key = Abs_int64 1, p_name = ''P2'', p_description = ''d2'', p_owner_id = 1\<rparr>,
        \<lparr>courses = [], users = [],
         projects = [\<lparr>p_key = Abs_int64 1, p_name = ''P2'', p_description = ''d2'', p_owner_id = 1\<rparr>]\<rparr>) \<and>
   serve (put_project unique_columns 1
            \<lparr>pput_name = ''P2'', pput_description = ''d2'', pput_owner = Abs_int64 2\<rparr>)
         (campus\<lparr>users := [user_a, user_b]\<rparr>)
     = (Response 200 \<lparr>p_key = Abs_int64 1, p_name = ''P2'', p_description = ''d2'', p_owner_id = 2\<rparr>,
        \<lparr>courses = [course_c], users = [user_a, user_b],
         projects = [\<lparr>p_key = Abs_int64 1, p_name = ''P2'', p_description = ''d2'', p_owner_id = 2\<rparr>]\<rparr>)"
proof -
  have p: "List.find (\<lambda>p. p_id p = 1) (projects after_owner_deleted) = Some project_p"
    by (simp add: after_owner_deleted_store project_p_def)
  have q: "List.find (\<lambda>p. p_id p = 1) (projects (campus\<lparr>users := [user_a, user_b]\<rparr>))
             = Some project_p"
    by (simp add: campus_def project_p_def)
  show ?thesis
    using
      put_project_owner_check [OF p, of
        "\<lparr>pput_name = ''P2'', pput_description = ''d2'', pput_owner = Abs_int64 2\<rparr>" unique_columns]
      put_project_owner_check [OF p, of
        "\<lparr>pput_name = ''P2'', pput_description = ''d2'', pput_owner = Abs_int64 1\<rparr>" unique_columns]
      put_project_owner_check [OF q, of
        "\<lparr>pput_name = ''P2'', pput_description = ''d2'', pput_owner = Abs_int64 2\<rparr>" unique_columns]
    by (simp add: after_owner_deleted_store campus_def project_p_def user_a_def user_b_def
        course_c_def unique_columns_def Let_def)
qed

lemma setattrs_course_fields:
  "c_code (setattrs_course payload r) = (case cpatch_code payload of None \<Rightarrow> c_code r | Some v \<Rightarrow> v)"
  "c_name (setattrs_course payload r) = (case cpatch_name payload of None \<Rightarrow> c_name r | Some v \<Rightarrow> v)"
  "c_credits (setattrs_course payload r) = (case cpatch_credits payload of None \<Rightarrow> c_credits r | Some v \<Rightarrow> v)"
  by (simp_all add: setattrs_course_def Let_def split: option.splits)

lemma setattrs_user_fields:
  "u_name (setattrs_user payload r) = (case upatch_name payload of None \<Rightarrow> u_name r | Some v \<Rightarrow> v)"
  "u_email (setattrs_user payload r) = (case upatch_email payload of None \<Rightarrow> u_email r | Some v \<Rightarrow> v)"
  "u_age (setattrs_user payload r) = (case upatch_age payload of None \<Rightarrow> u_age r | Some v \<Rightarrow> v)"
  "u_student_id (setattrs_user payload r) = (case upatch_student_id payload of None \<Rightarrow> u_student_id r | Some v \<Rightarrow> v)"
  by (simp_all add: setattrs_user_def Let_def split: option.splits)

lemma setattrs_project_fields:
  "p_name (setattrs_project payload r) = (case ppatch_name payload of None \<Rightarrow> p_name r | Some v \<Rightarrow> v)"
  "p_description (setattrs_project payload r) = (case ppatch_description payload of None \<Rightarrow> p_description r | Some v \<Rightarrow> v)"
  "p_owner_id (setattrs_project payload r) = (case ppatch_owner_id payload of None \<Rightarrow> p_owner_id r | Some v \<Rightarrow> v)"
  by (simp_all add: setattrs_project_def Let_def split: option.splits)

lemma setattrs_nothing:
  "setattrs_course \<lparr>cpatch_code = None, cpatch_name = None, cpatch_credits = None\<rparr> c = c"
  "setattrs_user \<lparr>upatch_name = None, upatch_email = None, upatch_age = None,
                  upatch_student_id = None\<rparr> u = u"
  "setattrs_project \<lparr>ppatch_name = None, ppatch_description = None, ppatch_owner = None\<rparr> p = p"
  by (simp_all add: setattrs_course_def setattrs_user_def setattrs_project_def)

lemma patch_course_frame:
  assumes "List.find (\<lambda>r. c_id r = course_id) (courses st) = Some row"
  shows "serve (patch_course accepts course_id payload) st
           = (ErrorResponse 409 ''Course update failed'', st) \<or>
         (\<exists>row' st'. serve (patch_course accepts course_id payload) st = (Response 200 row', st') \<and>
            List.find (\<lambda>r. c_id r = course_id) (courses st') = Some row' \<and>
            c_id row' = c_id row \<and>
            c_code row' = (case cpatch_code payload of None \<Rightarrow> c_code row | Some v \<Rightarrow> v) \<and>
            c_name row' = (case cpatch_name payload of None \<Rightarrow> c_name row | Some v \<Rightarrow> v) \<and>
            c_credits row' = (case cpatch_credits payload of None \<Rightarrow> c_credits row | Some v \<Rightarrow> v) \<and>
            (\<forall>j. j \<noteq> course_id \<longrightarrow>
               List.find (\<lambda>r. c_id r = j) (courses st') = List.find (\<lambda>r. c_id r = j) (courses st)) \<and>
            users st' = users st \<and> projects st' = projects st)"
  using assms
  by (simp add: serve_patch_course Let_def find_set_row find_set_other setattrs_course_fields)

lemma patch_user_frame:
  assumes "List.find (\<lambda>r. u_id r = user_id) (users st) = Some row"
  shows "serve (patch_user accepts user_id payload) st
           = (ErrorResponse 409 ''User update failed'', st) \<or>
         (\<exists>row' st'. serve (patch_user accepts user_id payload) st = (Response 200 row', st') \<and>
            List.find (\<lambda>r. u_id r = user_id) (users st') = Some row' \<and>
            u_id row' = u_id row \<and>
            u_name row' = (case upatch_name payload of None \<Rightarrow> u_name row | Some v \<Rightarrow> v) \<and>
            u_email row' = (case upatch_email payload of None \<Rightarrow> u_email row | Some v \<Rightarrow> v) \<and>
            u_age row' = (case upatch_age payload of None \<Rightarrow> u_age row | Some v \<Rightarrow> v) \<and>
            u_student_id row' =
              (case upatch_student_id payload of None \<Rightarrow> u_student_id row | Some v \<Rightarrow> v) \<and>
            (\<forall>j. j \<noteq> user_id \<longrightarrow>
               List.find (\<lambda>r. u_id r = j) (users st') = List.find (\<lambda>r. u_id r = j) (users st)) \<and>
            courses st' = courses st \<and> projects st' = projects st)"
  using assms
  by (simp add: serve_patch_user Let_def find_set_row find_set_other setattrs_user_fields)

lemma patch_project_frame:
  assumes "List.find (\<lambda>r. p_id r = project_id) (projects st) = Some row"
  shows "serve (patch_project accepts project_id payload) st
           = (ErrorResponse 404 ''Owner not found'', st) \<or>
         serve (patch_project accepts project_id payload) st
           = (ErrorResponse 409 ''Project update failed'', st) \<or>
         (\<exists>row' st'. serve (patch_project accepts project_id payload) st = (Response 200 row', st') \<and>
            List.find (\<lambda>r. p_id r = project_id) (projects st') = Some row' \<and>
            p_id row' = p_id row \<and>
            p_name row' = (case ppatch_name payload of None \<Rightarrow> p_name row | Some v \<Rightarrow> v) \<and>
            p_description row' =
              (case ppatch_description payload of None \<Rightarrow> p_description row | Some v \<Rightarrow> v) \<and>
            p_owner_id row' =
              (case ppatch_owner_id payload of None \<Rightarrow> p_owner_id row | Some v \<Rightarrow> v) \<and>
            (\<forall>j. j \<noteq> project_id \<longrightarrow>
               List.find (\<lambda>r. p_id r = j) (projects st') = List.find (\<lambda>r. p_id r = j) (projects st)) \<and>
            courses st' = courses st \<and> users st' = users st)"
  using assms
  by (simp add: serve_patch_project Let_def find_set_row find_set_other setattrs_project_fields)

lemma patch_nothing:
  "List.find (\<lambda>r. c_id r = course_id) (courses st) = Some c \<Longrightarrow>
     serve (patch_course accepts course_id
        \<lparr>cpatch_code = None, cpatch_name = None, cpatch_credits = None\<rparr>) st = (Response 200 c, st)"
  "List.find (\<lambda>r. u_id r = user_id) (users st) = Some u \<Longrightarrow>
     serve (patch_user accepts user_id
        \<lparr>upatch_name = None, upatch_email = None, upatch_age = None,
         upatch_student_id = None\<rparr>) st = (Response 200 u, st)"
  "List.find (\<lambda>r. p_id r = project_id) (projects st) = Some p \<Longrightarrow>
     serve (patch_project accepts project_id
        \<lparr>ppatch_name = None, ppatch_description = None, ppatch_owner = None\<rparr>) st
       = (Response 200 p, st)"
  by (simp_all add: serve_patch_course serve_patch_user serve_patch_project setattrs_nothing
      Let_def unchanged cong: if_cong)

text \<open>
  C5. A PATCH on an existing course, user or project touches only the fields that the
  payload sets. Whatever the outcome, the store is either as it was (the 409 of a
  refused commit, and for a project the 404 of an unknown owner) or holds the row with
  each field set by the payload at the payload's value and every other field, the id
  included, at its prior value, all other rows and tables being as before; the response
  is then 200 with that row. A PATCH whose payload sets no field answers 200 with the
  row as it was and leaves the store unchanged.
\<close>

theorem patch_touches_only_given_fields:
  "(List.find (\<lambda>r. c_id r = course_id) (courses st) = Some c \<longrightarrow>
      (serve (patch_course accepts course_id cpayload) st
         = (ErrorResponse 409 ''Course update failed'', st) \<or>
       (\<exists>row' st'. serve (patch_course accepts course_id cpayload) st = (Response 200 row', st') \<and>
          List.find (\<lambda>r. c_id r = course_id) (courses st') = Some row' \<and>
          c_id row' = c_id c \<and>
          c_code row' = (case cpatch_code cpayload of None \<Rightarrow> c_code c | Some v \<Rightarrow> v) \<and>
          c_name row' = (case cpatch_name cpayload of None \<Rightarrow> c_name c | Some v \<Rightarrow> v) \<and>
          c_credits row' = (case cpatch_credits cpayload of None \<Rightarrow> c_credits c | Some v \<Rightarrow> v) \<and>
          (\<forall>j. j \<noteq> course_id \<longrightarrow>
             List.find (\<lambda>r. c_id r = j) (courses st') = List.find (\<lambda>r. c_id r = j) (courses st)) \<and>
          users st' = users st \<and> projects st' = projects st)) \<and>
      serve (patch_course accepts course_id
               \<lparr>cpatch_code = None, cpatch_name = None, cpatch_credits = None\<rparr>) st
        = (Response 200 c, st)) \<and>
   (List.find (\<lambda>r. u_id r = user_id) (users st) = Some u \<longrightarrow>
      (serve (patch_user accepts user_id upayload) st
         = (ErrorResponse 409 ''User update failed'', st) \<or>
       (\<exists>row' st'. serve (patch_user accepts user_id upayload) st = (Response 200 row', st') \<and>
          List.find (\<lambda>r. u_id r = user_id) (users st') = Some row' \<and>
          u_id row' = u_id u \<and>
          u_name row' = (case upatch_name upayload of None \<Rightarrow> u_name u | Some v \<Rightarrow> v) \<and>
          u_email row' = (case upatch_email upayload of None \<Rightarrow> u_email u | Some v \<Rightarrow> v) \<and>
          u_age row' = (case upatch_age upayload of None \<Rightarrow> u_age u | Some v \<Rightarrow> v) \<and>
          u_student_id row' =
            (case upatch_student_id upayload of None \<Rightarrow> u_student_id u | Some v \<Rightarrow> v) \<and>
          (\<forall>j. j \<noteq> user_id \<longrightarrow>
             List.find (\<lambda>r. u_id r = j) (users st') = List.find (\<lambda>r. u_id r = j) (users st)) \<and>
          courses st' = courses st \<and> projects st' = projects st)) \<and>
      serve (patch_user accepts user_id
               \<lparr>upatch_name = None, upatch_email = None, upatch_age = None,
                upatch_student_id = None\<rparr>) st
        = (Response 200 u, st)) \<and>
   (List.find (\<lambda>r. p_id r = project_id) (projects st) = Some p \<longrightarrow>
      (serve (patch_project accepts project_id ppayload) st
         = (ErrorResponse 404 ''Owner not found'', st) \<or>
       serve (patch_project accepts project_id ppayload) st
         = (ErrorResponse 409 ''Project update failed'', st) \<or>
       (\<exists>row' st'. serve (patch_project accepts project_id ppayload) st = (Response 200 row', st') \<and>
          List.find (\<lambda>r. p_id r = project_id) (projects st') = Some row' \<and>
          p_id row' = p_id p \<and>
          p_name row' = (case ppatch_name ppayload of None \<Rightarrow> p_name p | Some v \<Rightarrow> v) \<and>
          p_description row' =
            (case ppatch_description ppayload of None \<Rightarrow> p_description p | Some v \<Rightarrow> v) \<and>
          p_owner_id row' =
            (case ppatch_owner_id ppayload of None \<Rightarrow> p_owner_id p | Some v \<Rightarrow> v) \<and>
          (\<forall>j. j \<noteq> project_id \<longrightarrow>
             List.find (\<lambda>r. p_id r = j) (projects st') = List.find (\<lambda>r. p_id r = j) (projects st)) \<and>
          courses st' = courses st \<and> users st' = users st)) \<and>
      serve (patch_project accepts project_id
               \<lparr>ppatch_name = None, ppatch_description = None, ppatch_owner = None\<rparr>) st
        = (Response 200 p, st))"
  by (intro conjI impI patch_course_frame patch_user_frame patch_project_frame patch_nothing;
      assumption)


theorem patch_touches_only_given_fields_witness:
  "serve (patch_course unique_columns 1
            \<lparr>cpatch_code = None, cpatch_name = Some ''Algebra'', cpatch_credits = None\<rparr>) campus
     = (Response 200 \<lparr>c_key = Abs_int64 1, c_code = ''CS1'', c_name = ''Algebra'', c_credits = 5\<rparr>,
        campus\<lparr>courses := [\<lparr>c_key = Abs_int64 1, c_code = ''CS1'', c_name = ''Algebra'', c_credits = 5\<rparr>]\<rparr>) \<and>
   serve (patch_course unique_columns 1
            \<lparr>cpatch_code = None, cpatch_name = None, cpatch_credits = None\<rparr>) campus
     = (Response 200 course_c, campus) \<and>
   serve (patch_user unique_columns 1
            \<lparr>upatch_name = None, upatch_email = None, upatch_age = Some 21,
             upatch_student_id = None\<rparr>) campus
     = (Response 200 \<lparr>u_key = Abs_int64 1, u_name = ''A'', u_email = ''a@x.com'', u_age = 21,
                      u_student_id = ''S1''\<rparr>,
        campus\<lparr>users := [\<lparr>u_key = Abs_int64 1, u_name = ''A'', u_email = ''a@x.com'', u_age = 21,
                           u_student_id = ''S1''\<rparr>]\<rparr>) \<and>
   serve (patch_user unique_columns 1
            \<lparr>upatch_name = None, upatch_email = None, upatch_age = None,
             upatch_student_id = None\<rparr>) campus
     = (Response 200 user_a, campus) \<and>
   serve (patch_project unique_columns 1
            \<lparr>ppatch_name = None, ppatch_description = Some ''e'', ppatch_owner = None\<rparr>) campus
     = (Response 200 \<lparr>p_key = Abs_int64 1, p_name = ''P'', p_description = ''e'', p_owner_id = 1\<rparr>,
        campus\<lparr>projects := [\<lparr>p_key = Abs_int64 1, p_name = ''P'', p_description = ''e'', p_owner_id = 1\<rparr>]\<rparr>) \<and>
   serve (patch_project unique_columns 1
            \<lparr>ppatch_name = None, ppatch_description = None, ppatch_owner = None\<rparr>) campus
     = (Response 200 project_p, campus)"
proof -
  have c: "List.find (\<lambda>r. c_id r = 1) (courses campus) = Some course_c"
    by (simp add: campus_def course_c_def)
  have u: "List.find (\<lambda>r. u_id r = 1) (users campus) = Some user_a"
    by (simp add: campus_def user_a_def)
  have p: "List.find (\<lambda>r. p_id r = 1) (projects campus) = Some project_p"
    by (simp add: campus_def project_p_def)
  show ?thesis
    using c u p
      patch_touches_only_given_fields [of 1 campus course_c unique_columns
        "\<lparr>cpatch_code = None, cpatch_name = Some ''Algebra'', cpatch_credits = None\<rparr>"
        1 user_a
        "\<lparr>upatch_name = None, upatch_email = None, upatch_age = Some 21,
          upatch_student_id = None\<rparr>"
        1 project_p
        "\<lparr>ppatch_name = None, ppatch_description = Some ''e'', ppatch_owner = None\<rparr>"]
    by (simp add: serve_patch_course serve_patch_user serve_patch_project Let_def unique_columns_def
        setattrs_course_def setattrs_user_def setattrs_project_def
        campus_def course_c_def user_a_def project_p_def)
qed

lemma constrained_simps:
  "constrained accepts refusal st (Response code body, st')
     = (if st' = st \<or> accepts st st' then (Response code body, st') else (refusal, st))"
  "constrained accepts refusal st (ErrorResponse code detail, st') = (ErrorResponse code detail, st')"
  by (simp_all add: constrained_def)

lemma constrained_if:
  "constrained accepts refusal st (if b then x else y)
     = (if b then constrained accepts refusal st x else constrained accepts refusal st y)"
  by simp

lemma constrained_option:
  "constrained accepts refusal st (case opt of None \<Rightarrow> x | Some v \<Rightarrow> y v)
     = (case opt of None \<Rightarrow> constrained accepts refusal st x
        | Some v \<Rightarrow> constrained accepts refusal st (y v))"
  by (simp split: option.splits)

lemmas constrained_unfold = constrained_simps constrained_if constrained_option

lemma wrapped_writes:
  "serve (create_course accepts cc) st
     = constrained accepts (ErrorResponse 409 ''Course already exists'') st
         (serve (create_course accept_all cc) st)"
  "serve (put_course accepts course_id cput) st
     = constrained accepts (ErrorResponse 409 ''Course update failed'') st
         (serve (put_course accept_all course_id cput) st)"
  "serve (patch_course accepts course_id cpatch) st
     = constrained accepts (ErrorResponse 409 ''Course update failed'') st
         (serve (patch_course accept_all course_id cpatch) st)"
  "serve (create_project accepts pc) st
     = constrained accepts (ErrorResponse 409 ''Project creation failed'') st
         (serve (create_project accept_all pc) st)"
  "serve (create_user_project accepts user_id pcu) st
     = constrained accepts (ErrorResponse 409 ''Project creation failed'') st
         (serve (create_user_project accept_all user_id pcu) st)"
  "serve (put_project accepts project_id pput) st
     = constrained accepts (ErrorResponse 409 ''Project update failed'') st
         (serve (put_project accept_all project_id pput) st)"
  "serve (patch_project accepts project_id ppatch) st
     = constrained accepts (ErrorResponse 409 ''Project update failed'') st
         (serve (patch_project accept_all project_id ppatch) st)"
  "serve (add_user accepts uc) st
     = constrained accepts (ErrorResponse 409 ''User already exists'') st
         (serve (add_user accept_all uc) st)"
  "serve (put_user accepts user_id uput) st
     = constrained accepts (ErrorResponse 409 ''User update failed'') st
         (serve (put_user accept_all user_id uput) st)"
  "serve (patch_user accepts user_id upatch) st
     = constrained accepts (ErrorResponse 409 ''User update failed'') st
         (serve (patch_user accept_all user_id upatch) st)"
  by (simp_all add: constrained_unfold accept_all_def Let_def unchanged
      serve_create_course serve_put_course serve_patch_course serve_create_project
      serve_create_user_project serve_put_project serve_patch_project serve_add_user
      serve_put_user serve_patch_user
      cong: if_cong option.case_cong)

lemma bare_delete_course:
  "serve (delete_course accepts course_id) st
     = constrained accepts (ErrorResponse 500 ''Internal Server Error'') st
         (serve (delete_course accept_all course_id) st)"
proof (cases "List.find (\<lambda>r. c_id r = course_id) (courses st)")
  case None
  then show ?thesis
    by (simp add: serve_delete_course constrained_simps)
next
  case (Some row)
  then have "filter (\<lambda>r. c_id r \<noteq> course_id) (courses st) \<noteq> courses st"
    by (rule filter_shrinks)
  with Some show ?thesis
    by (simp add: serve_delete_course constrained_simps accept_all_def Let_def unchanged)
qed

lemma bare_delete_project:
  "serve (delete_project accepts project_id) st
     = constrained accepts (ErrorResponse 500 ''Internal Server Error'') st
         (serve (delete_project accept_all project_id) st)"
proof (cases "List.find (\<lambda>r. p_id r = project_id) (projects st)")
  case None
  then show ?thesis
    by (simp add: serve_delete_project constrained_simps)
next
  case (Some row)
  then have "filter (\<lambda>r. p_id r \<noteq> project_id) (projects st) \<noteq> projects st"
    by (rule filter_shrinks)
  with Some show ?thesis
    by (simp add: serve_delete_project constrained_simps accept_all_def Let_def unchanged)
qed

lemma bare_delete_user:
  "serve (delete_user accepts user_id) st
     = constrained accepts (ErrorResponse 500 ''Internal Server Error'') st
         (serve (delete_user accept_all user_id) st)"
proof (cases "List.find (\<lambda>r. u_id r = user_id) (users st)")
  case None
  then show ?thesis
    by (simp add: serve_delete_user constrained_simps)
next
  case (Some row)
  then have "filter (\<lambda>r. u_id r \<noteq> user_id) (users st) \<noteq> users st"
    by (rule filter_shrinks)
  with Some show ?thesis
    by (simp add: serve_delete_user constrained_simps accept_all_def Let_def unchanged)
qed

text \<open>
  C6, as the spec states it, fails on the DELETE handlers: they call \<^verbatim>\<open>db.commit()\<close>
  directly. On a store that enforces owner references, deleting the user who owns a
  project is refused at the commit, and the response is an unhandled 500, not the 409
  that the conflict-safe write would have produced.
\<close>

theorem delete_commits_bare_counterexample:
  "\<not> foreign_keys_enforced campus (campus\<lparr>users := []\<rparr>) \<and>
   serve (delete_user accept_all 1) campus = (Response 204 (), campus\<lparr>users := []\<rparr>) \<and>
   serve (delete_user foreign_keys_enforced 1) campus
     = (ErrorResponse 500 ''Internal Server Error'', campus) \<and>
   serve (delete_user foreign_keys_enforced 1) campus
     \<noteq> constrained foreign_keys_enforced (ErrorResponse 409 ''Conflict'') campus
         (serve (delete_user accept_all 1) campus)"
  by (simp add: serve_delete_user constrained_simps Let_def foreign_keys_enforced_def
      unique_columns_def accept_all_def campus_def user_a_def project_p_def course_c_def)

text \<open>
  C6, amended. Every POST, PUT and PATCH handler commits through the conflict-safe
  write: its outcome is the outcome it has on a store without constraints when that
  changes nothing or the store accepts the change, and otherwise it is a 409 with the
  handler's own message and the store as it was. The three DELETE handlers commit
  directly: when the store refuses the removal, the response is an unhandled 500, the
  store being as it was.
\<close>

theorem writes_through_wrapper:
  "serve (create_course accepts cc) st
     = constrained accepts (ErrorResponse 409 ''Course already exists'') st
         (serve (create_course accept_all cc) st) \<and>
   serve (put_course accepts course_id cput) st
     = constrained accepts (ErrorResponse 409 ''Course update failed'') st
         (serve (put_course accept_all course_id cput) st) \<and>
   serve (patch_course accepts course_id cpatch) st
     = constrained accepts (ErrorResponse 409 ''Course update failed'') st
         (serve (patch_course accept_all course_id cpatch) st) \<and>
   serve (create_project accepts pc) st
     = constrained accepts (ErrorResponse 409 ''Project creation failed'') st
         (serve (create_project accept_all pc) st) \<and>
   serve (create_user_project accepts user_id pcu) st
     = constrained accepts (ErrorResponse 409 ''Project creation failed'') st
         (serve (create_user_project accept_all user_id pcu) st) \<and>
   serve (put_project accepts project_id pput) st
     = constrained accepts (ErrorResponse 409 ''Project update failed'') st
         (serve (put_project accept_all project_id pput) st) \<and>
   serve (patch_project accepts project_id ppatch) st
     = constrained accepts (ErrorResponse 409 ''Project update failed'') st
         (serve (patch_project accept_all project_id ppatch) st) \<and>
   serve (add_user accepts uc) st
     = constrained accepts (ErrorResponse 409 ''User already exists'') st
         (serve (add_user accept_all uc) st) \<and>
   serve (put_user accepts user_id uput) st
     = constrained accepts (ErrorResponse 409 ''User update failed'') st
         (serve (put_user accept_all user_id uput) st) \<and>
   serve (patch_user accepts user_id upatch) st
     = constrained accepts (ErrorResponse 409 ''User update failed'') st
         (serve (patch_user accept_all user_id upatch) st) \<and>
   serve (delete_course accepts course_id) st
     = constrained accepts (ErrorResponse 500 ''Internal Server Error'') st
         (serve (delete_course accept_all course_id) st) \<and>
   serve (delete_project accepts project_id) st
     = constrained accepts (ErrorResponse 500 ''Internal Server Error'') st
         (serve (delete_project accept_all project_id) st) \<and>
   serve (delete_user accepts user_id) st
     = constrained accepts (ErrorResponse 500 ''Internal Server Error'') st
         (serve (delete_user accept_all user_id) st)"
  by (intro conjI wrapped_writes bare_delete_course bare_delete_project bare_delete_user)

theorem writes_through_wrapper_witness:
  "serve (create_course unique_columns
            \<lparr>cc_code = ''CS1'', cc_name = ''Again'', cc_credits = 5\<rparr>) campus
     = (ErrorResponse 409 ''Course already exists'', campus) \<and>
   serve (create_course unique_columns
            \<lparr>cc_code = ''CS2'', cc_name = ''Next'', cc_credits = 5\<rparr>) campus
     = (Response 201 \<lparr>c_key = Abs_int64 2, c_code = ''CS2'', c_name = ''Next'', c_credits = 5\<rparr>,
        campus\<lparr>courses := [course_c,
           \<lparr>c_key = Abs_int64 2, c_code = ''CS2'', c_name = ''Next'', c_credits = 5\<rparr>]\<rparr>) \<and>
   serve (delete_user refuse_all 1) campus = (ErrorResponse 500 ''Internal Server Error'', campus) \<and>
   serve (delete_user unique_columns 1) campus = (Response 204 (), campus\<lparr>users := []\<rparr>)"
  using
    writes_through_wrapper [of unique_columns
      "\<lparr>cc_code = ''CS1'', cc_name = ''Again'', cc_credits = 5\<rparr>" campus]
    writes_through_wrapper [of unique_columns
      "\<lparr>cc_code = ''CS2'', cc_name = ''Next'', cc_credits = 5\<rparr>" campus]
    writes_through_wrapper [of refuse_all _ campus _ _ _ _ 1]
    writes_through_wrapper [of unique_columns _ campus _ _ _ _ 1]
  by (simp add: serve_create_course serve_delete_user constrained_simps Let_def next_id_def
      CourseDB_def unique_columns_def refuse_all_def accept_all_def
      campus_def user_a_def project_p_def course_c_def)

text \<open>
  C7, as the spec states it, fails in two ways. The DELETE handlers commit directly, so
  on a store that enforces owner references the DELETE of a user who owns a project is
  refused at the commit: the response is an unhandled 500, the user is still stored, and
  the GET of that id answers 200. And an id that the engine cannot bind (here \<open>2 ^ 63\<close>)
  fails in the lookup: the response is 500, not 404.
\<close>

theorem delete_refused_or_unbound_counterexample:
  "List.find (\<lambda>r. u_id r = 1) (users campus) = Some user_a \<and>
   serve (delete_user foreign_keys_enforced 1) campus
     = (ErrorResponse 500 ''Internal Server Error'', campus) \<and>
   fst (serve (get_user 1) (snd (serve (delete_user foreign_keys_enforced 1) campus)))
     = Response 200 user_a \<and>
   List.find (\<lambda>r. c_id r = 2 ^ 63) (courses campus) = None \<and>
   serve (delete_course unique_columns (2 ^ 63)) campus
     = (ErrorResponse 500 ''Internal Server Error'', campus)"
  by (simp add: serve_delete_user serve_delete_course serve_get_user Let_def
      foreign_keys_enforced_def unique_columns_def in_int64_def
      campus_def user_a_def project_p_def course_c_def)

text \<open>
  C7, amended. For courses, users and projects alike, and for every id that the engine
  can bind (a signed 64-bit integer): DELETE on an id with no row answers 404 with a
  message that names the kind of entity, and leaves the store unchanged; DELETE on an
  id with a row, when the store accepts the removal at the commit, removes every row with
  that id, answers 204 with an empty body, and a GET on the same id then answers 404.
  When the store refuses the removal, and when the id is one that the engine cannot
  bind, the response is an unhandled 500 and the store is unchanged. A store that
  enforces the uniqueness constraints of the data model and nothing else accepts every
  removal from a store that satisfies them.
\<close>

theorem delete_then_get_not_found:
  "(List.find (\<lambda>r. c_id r = course_id) (courses st) = None \<and> in_int64 course_id \<longrightarrow>
      serve (delete_course accepts course_id) st = (ErrorResponse 404 ''Course not found'', st)) \<and>
   (\<not> in_int64 course_id \<longrightarrow>
      serve (delete_course accepts course_id) st
        = (ErrorResponse 500 ''Internal Server Error'', st)) \<and>
   (List.find (\<lambda>r. c_id r = course_id) (courses st) \<noteq> None \<and>
    accepts st (st\<lparr>courses := filter (\<lambda>r. c_id r \<noteq> course_id) (courses st)\<rparr>) \<longrightarrow>
      serve (delete_course accepts course_id) st
        = (Response 204 (), st\<lparr>courses := filter (\<lambda>r. c_id r \<noteq> course_id) (courses st)\<rparr>) \<and>
      fst (serve (get_course course_id)
             (st\<lparr>courses := filter (\<lambda>r. c_id r \<noteq> course_id) (courses st)\<rparr>))
        = ErrorResponse 404 ''Course not found'') \<and>
   (List.find (\<lambda>r. c_id r = course_id) (courses st) \<noteq> None \<and>
    \<not> accepts st (st\<lparr>courses := filter (\<lambda>r. c_id r \<noteq> course_id) (courses st)\<rparr>) \<longrightarrow>
      serve (delete_course accepts course_id) st
        = (ErrorResponse 500 ''Internal Server Error'', st)) \<and>
   (List.find (\<lambda>r. u_id r = user_id) (users st) = None \<and> in_int64 user_id \<longrightarrow>
      serve (delete_user accepts user_id) st = (ErrorResponse 404 ''User not found'', st)) \<and>
   (\<not> in_int64 user_id \<longrightarrow>
      serve (delete_user accepts user_id) st
        = (ErrorResponse 500 ''Internal Server Error'', st)) \<and>
   (List.find (\<lambda>r. u_id r = user_id) (users st) \<noteq> None \<and>
    accepts st (st\<lparr>users := filter (\<lambda>r. u_id r \<noteq> user_id) (users st)\<rparr>) \<longrightarrow>
      serve (delete_user accepts user_id) st
        = (Response 204 (), st\<lparr>users := filter (\<lambda>r. u_id r \<noteq> user_id) (users st)\<rparr>) \<and>
      fst (serve (get_user user_id)
             (st\<lparr>users := filter (\<lambda>r. u_id r \<noteq> user_id) (users st)\<rparr>))
        = ErrorResponse 404 ''User not found'') \<and>
   (List.find (\<lambda>r. u_id r = user_id) (users st) \<noteq> None \<and>
    \<not> accepts st (st\<lparr>users := filter (\<lambda>r. u_id r \<noteq> user_id) (users st)\<rparr>) \<longrightarrow>
      serve (delete_user accepts user_id) st
        = (ErrorResponse 500 ''Internal Server Error'', st)) \<and>
   (List.find (\<lambda>r. p_id r = project_id) (projects st) = None \<and> in_int64 project_id \<longrightarrow>
      serve (delete_project accepts project_id) st = (ErrorResponse 404 ''Project not found'', st)) \<and>
   (\<not> in_int64 project_id \<longrightarrow>
      serve (delete_project accepts project_id) st
        = (ErrorResponse 500 ''Internal Server Error'', st)) \<and>
   (List.find (\<lambda>r. p_id r = project_id) (projects st) \<noteq> None \<and>
    accepts st (st\<lparr>projects := filter (\<lambda>r. p_id r \<noteq> project_id) (projects st)\<rparr>) \<longrightarrow>
      serve (delete_project accepts project_id) st
        = (Response 204 (), st\<lparr>projects := filter (\<lambda>r. p_id r \<noteq> project_id) (projects st)\<rparr>) \<and>
      fst (serve (get_project_owner project_id)
             (st\<lparr>projects := filter (\<lambda>r. p_id r \<noteq> project_id) (projects st)\<rparr>))
        = ErrorResponse 404 ''Project not found'') \<and>
   (List.find (\<lambda>r. p_id r = project_id) (projects st) \<noteq> None \<and>
    \<not> accepts st (st\<lparr>projects := filter (\<lambda>r. p_id r \<noteq> project_id) (projects st)\<rparr>) \<longrightarrow>
      serve (delete_project accepts project_id) st
        = (ErrorResponse 500 ''Internal Server Error'', st)) \<and>
   (unique_columns old st \<longrightarrow>
      unique_columns st (st\<lparr>courses := filter (\<lambda>r. c_id r \<noteq> course_id) (courses st)\<rparr>) \<and>
      unique_columns st (st\<lparr>users := filter (\<lambda>r. u_id r \<noteq> user_id) (users st)\<rparr>) \<and>
      unique_columns st (st\<lparr>projects := filter (\<lambda>r. p_id r \<noteq> project_id) (projects st)\<rparr>))"
proof -
  have closed: "unique_columns old st \<longrightarrow>
      unique_columns st (st\<lparr>courses := filter (\<lambda>r. c_id r \<noteq> course_id) (courses st)\<rparr>) \<and>
      unique_columns st (st\<lparr>users := filter (\<lambda>r. u_id r \<noteq> user_id) (users st)\<rparr>) \<and>
      unique_columns st (st\<lparr>projects := filter (\<lambda>r. p_id r \<noteq> project_id) (projects st)\<rparr>)"
    by (simp add: unique_columns_def distinct_map_filter)
  have unbound:
    "\<not> in_int64 course_id \<longrightarrow>
       serve (delete_course accepts course_id) st = (ErrorResponse 500 ''Internal Server Error'', st)"
    "\<not> in_int64 user_id \<longrightarrow>
       serve (delete_user accepts user_id) st = (ErrorResponse 500 ''Internal Server Error'', st)"
    "\<not> in_int64 project_id \<longrightarrow>
       serve (delete_project accepts project_id) st
         = (ErrorResponse 500 ''Internal Server Error'', st)"
    by (simp_all add: serve_delete_course serve_delete_user serve_delete_project
        find_out_of_range)
  have gone: "List.find (\<lambda>r. p_id r = project_id) (projects st) \<noteq> None \<Longrightarrow>
      fst (serve (get_project_owner project_id)
             (st\<lparr>projects := filter (\<lambda>r. p_id r \<noteq> project_id) (projects st)\<rparr>))
        = ErrorResponse 404 ''Project not found''"
    by (auto simp add: serve_get_project_owner_absent filter_deleted dest: found_in_range)
  show ?thesis
    using closed unbound gone
    by (auto simp add: serve_delete_course serve_delete_user serve_delete_project
        serve_get_course serve_get_user Let_def find_deleted dest: found_in_range)
qed

theorem delete_then_get_not_found_witness:
  "serve (delete_course unique_columns 7) campus = (ErrorResponse 404 ''Course not found'', campus) \<and>
   serve (delete_course unique_columns (2 ^ 63)) campus
     = (ErrorResponse 500 ''Internal Server Error'', campus) \<and>
   serve (delete_course unique_columns 1) campus = (Response 204 (), campus\<lparr>courses := []\<rparr>) \<and>
   fst (serve (get_course 1) (campus\<lparr>courses := []\<rparr>)) = ErrorResponse 404 ''Course not found'' \<and>
   serve (delete_user unique_columns 7) campus = (ErrorResponse 404 ''User not found'', campus) \<and>
   serve (delete_user unique_columns 1) campus = (Response 204 (), campus\<lparr>users := []\<rparr>) \<and>
   fst (serve (get_user 1) (campus\<lparr>users := []\<rparr>)) = ErrorResponse 404 ''User not found'' \<and>
   serve (delete_user foreign_keys_enforced 1) campus
     = (ErrorResponse 500 ''Internal Server Error'', campus) \<and>
   serve (delete_project unique_columns 7) campus
     = (ErrorResponse 404 ''Project not found'', campus) \<and>
   serve (delete_project unique_columns 1) campus = (Response 204 (), campus\<lparr>projects := []\<rparr>) \<and>
   fst (serve (get_project_owner 1) (campus\<lparr>projects := []\<rparr>))
     = ErrorResponse 404 ''Project not found''"
proof -
  have ids: "c_id course_c = 1" "u_id user_a = 1" "p_id project_p = 1"
    by (simp_all add: course_c_def user_a_def project_p_def)
  have range: "in_int64 7" "in_int64 1" "\<not> in_int64 (2 ^ 63)"
    by (simp_all add: in_int64_def)
  have absent:
    "List.find (\<lambda>r. c_id r = 7) (courses campus) = None"
    "List.find (\<lambda>r. u_id r = 7) (users campus) = None"
    "List.find (\<lambda>r. p_id r = 7) (projects campus) = None"
    by (simp_all add: campus_def ids)
  have present:
    "List.find (\<lambda>r. c_id r = 1) (courses campus) \<noteq> None"
    "List.find (\<lambda>r. u_id r = 1) (users campus) \<noteq> None"
    "List.find (\<lambda>r. p_id r = 1) (projects campus) \<noteq> None"
    by (simp_all add: campus_def ids)
  have removed:
    "campus\<lparr>courses := filter (\<lambda>r. c_id r \<noteq> 1) (courses campus)\<rparr> = campus\<lparr>courses := []\<rparr>"
    "campus\<lparr>users := filter (\<lambda>r. u_id r \<noteq> 1) (users campus)\<rparr> = campus\<lparr>users := []\<rparr>"
    "campus\<lparr>projects := filter (\<lambda>r. p_id r \<noteq> 1) (projects campus)\<rparr> = campus\<lparr>projects := []\<rparr>"
    by (simp_all add: campus_def ids)
  have consistent: "unique_columns campus campus"
    by (simp add: unique_columns_def campus_def)
  have refused: "\<not> foreign_keys_enforced campus (campus\<lparr>users := []\<rparr>)"
    by (simp add: foreign_keys_enforced_def campus_def)
  show ?thesis
    using absent present consistent range refused
      delete_then_get_not_found [of 7 campus unique_columns 7 7 campus]
      delete_then_get_not_found [of "2 ^ 63" campus unique_columns 7 7 campus]
      delete_then_get_not_found [of 1 campus unique_columns 1 1 campus]
      delete_then_get_not_found [of 1 campus foreign_keys_enforced 1 1 campus]
    by (simp add: removed)
qed

text \<open>
  C8, as the spec states it, fails for an offset that the engine cannot bind: the offset
  is passed to the query as it comes, and at \<open>2 ^ 63\<close> the execution fails with an
  error that the handler does not catch.
\<close>

theorem list_courses_unbound_counterexample:
  "serve (list_courses (Some 10) (Some (2 ^ 63))) campus
     = (ErrorResponse 500 ''Internal Server Error'', campus)"
  by (simp add: serve_list_courses in_int64_def)

text \<open>
  C8, amended. \<^verbatim>\<open>GET /api/courses\<close>: an absent \<^verbatim>\<open>limit\<close> is 10 and an absent \<^verbatim>\<open>offset\<close>
  is 0. For every store and every limit and offset that the engine can bind (signed
  64-bit integers), the response is 200, the store is untouched, and the courses
  returned are stored courses in ascending order of id: for a limit and an offset that
  are not negative, the first \<open>limit\<close> courses after the first \<open>offset\<close> ones of the
  courses sorted by id, so that an offset at or past the end of the collection gives
  the empty sequence. For a limit or an offset outside that range the response is an
  unhandled 500.
\<close>

theorem list_courses_window:
  "serve (list_courses None offset) st = serve (list_courses (Some 10) offset) st \<and>
   serve (list_courses limit None) st = serve (list_courses limit (Some 0)) st \<and>
   (in_int64 l \<and> in_int64 k \<longrightarrow>
     (\<exists>found. serve (list_courses (Some l) (Some k)) st = (Response 200 found, st) \<and>
        sorted (map c_id found) \<and> set found \<subseteq> set (courses st) \<and>
        (0 \<le> l \<and> 0 \<le> k \<longrightarrow> found = take (nat l) (drop (nat k) (sort_key c_id (courses st)))) \<and>
        (int (length (courses st)) \<le> k \<longrightarrow> found = []))) \<and>
   (\<not> (in_int64 l \<and> in_int64 k) \<longrightarrow>
      serve (list_courses (Some l) (Some k)) st
        = (ErrorResponse 500 ''Internal Server Error'', st))"
proof -
  let ?all = "sort_key c_id (courses st)"
  let ?found = "sql_limit l (sql_offset k ?all)"
  have "sorted (map c_id (drop (nat k) ?all))"
    by (simp add: drop_map [symmetric])
  then have sorted: "sorted (map c_id ?found)"
    by (simp add: sql_limit_def sql_offset_def take_map [symmetric])
  have "set (drop (nat k) ?all) \<subseteq> set (courses st)"
    using set_drop_subset [of "nat k" ?all] by simp
  then have subset: "set ?found \<subseteq> set (courses st)"
    using set_take_subset [of "nat l" "drop (nat k) ?all"]
    by (auto simp add: sql_limit_def sql_offset_def)
  have window: "0 \<le> l \<and> 0 \<le> k \<longrightarrow> ?found = take (nat l) (drop (nat k) ?all)"
    by (simp add: sql_limit_def sql_offset_def)
  have past: "int (length (courses st)) \<le> k \<longrightarrow> ?found = []"
    by (simp add: sql_limit_def sql_offset_def)
  have bound: "in_int64 l \<and> in_int64 k \<longrightarrow>
      serve (list_courses (Some l) (Some k)) st = (Response 200 ?found, st)"
    by (simp add: serve_list_courses)
  have unbound: "\<not> (in_int64 l \<and> in_int64 k) \<longrightarrow>
      serve (list_courses (Some l) (Some k)) st
        = (ErrorResponse 500 ''Internal Server Error'', st)"
    by (simp add: serve_list_courses)
  have defaults:
    "serve (list_courses None offset) st = serve (list_courses (Some 10) offset) st"
    "serve (list_courses limit None) st = serve (list_courses limit (Some 0)) st"
    by (simp_all add: serve_list_courses)
  from sorted subset window past bound have
    "in_int64 l \<and> in_int64 k \<longrightarrow>
     (\<exists>found. serve (list_courses (Some l) (Some k)) st = (Response 200 found, st) \<and>
        sorted (map c_id found) \<and> set found \<subseteq> set (courses st) \<and>
        (0 \<le> l \<and> 0 \<le> k \<longrightarrow> found = take (nat l) (drop (nat k) ?all)) \<and>
        (int (length (courses st)) \<le> k \<longrightarrow> found = []))"
    by blast
  with defaults unbound show ?thesis
    by blast
qed

theorem list_courses_window_witness:
  "serve (list_courses None None) (campus\<lparr>courses := [course_d, course_c]\<rparr>)
     = (Response 200 [course_c, course_d], campus\<lparr>courses := [course_d, course_c]\<rparr>) \<and>
   serve (list_courses (Some 1) (Some 1)) (campus\<lparr>courses := [course_d, course_c]\<rparr>)
     = (Response 200 [course_d], campus\<lparr>courses := [course_d, course_c]\<rparr>) \<and>
   serve (list_courses (Some 5) (Some 2)) (campus\<lparr>courses := [course_d, course_c]\<rparr>)
     = (Response 200 [], campus\<lparr>courses := [course_d, course_c]\<rparr>) \<and>
   serve (list_courses (Some (2 ^ 63)) (Some 0)) (campus\<lparr>courses := [course_d, course_c]\<rparr>)
     = (ErrorResponse 500 ''Internal Server Error'', campus\<lparr>courses := [course_d, course_c]\<rparr>)"
proof -
  let ?st = "campus\<lparr>courses := [course_d, course_c]\<rparr>"
  have ids: "c_id course_c = 1" "c_id course_d = 3"
    by (simp_all add: course_c_def course_d_def)
  have all: "sort_key c_id (courses ?st) = [course_c, course_d]"
    by (simp add: sort_key_def ids)
  have range: "in_int64 10" "in_int64 0" "in_int64 1" "in_int64 5" "in_int64 2"
    "\<not> in_int64 (2 ^ 63)"
    by (simp_all add: in_int64_def)
  show ?thesis
    using range all
      list_courses_window [of None ?st "Some 10" 10 0]
      list_courses_window [of None ?st None 1 1]
      list_courses_window [of None ?st None 5 2]
      list_courses_window [of None ?st None "2 ^ 63" 0]
    by auto
qed

text \<open>
  C9, as the spec states it, fails for an unknown user whose id projects still carry:
  after a user is created, given a project and deleted, no user has id 1, and the
  listing of the projects of user 1 is not empty. It also fails for a user id that the
  engine cannot bind: at \<open>2 ^ 63\<close> the response is an unhandled 500, not 200.
\<close>

theorem unknown_user_with_projects_counterexample:
  "fst (serve (get_user 1) after_owner_deleted) = ErrorResponse 404 ''User not found'' \<and>
   List.find (\<lambda>u. u_id u = 1) (users after_owner_deleted) = None \<and>
   fst (serve (get_user_projects 1) after_owner_deleted) = Response 200 [project_p] \<and>
   fst (serve (get_user_projects 1) after_owner_deleted) \<noteq> Response 200 [] \<and>
   serve (get_user_projects (2 ^ 63)) campus
     = (ErrorResponse 500 ''Internal Server Error'', campus)"
  by (simp add: after_owner_deleted_store serve_get_user serve_get_user_projects project_p_def
      in_int64_def)

text \<open>
  C9, amended. \<^verbatim>\<open>GET /api/users/{uid}/projects\<close> looks no user up: for every id that
  the engine can bind (a signed 64-bit integer) the response is 200 with exactly the
  projects whose \<^verbatim>\<open>owner_id\<close> is that id, the store being untouched; when no project
  carries the id, the sequence is empty. For an id outside that range the response is
  an unhandled 500.
\<close>

theorem get_user_projects_by_owner:
  "(in_int64 user_id \<longrightarrow>
      serve (get_user_projects user_id) st
        = (Response 200 (filter (\<lambda>p. p_owner_id p = user_id) (projects st)), st) \<and>
      ((\<forall>p \<in> set (projects st). p_owner_id p \<noteq> user_id) \<longrightarrow>
         serve (get_user_projects user_id) st = (Response 200 [], st)) \<and>
      (\<forall>found. fst (serve (get_user_projects user_id) st) = Response 200 found \<longrightarrow>
         set found = {p \<in> set (projects st). p_owner_id p = user_id})) \<and>
   (\<not> in_int64 user_id \<longrightarrow>
      serve (get_user_projects user_id) st = (ErrorResponse 500 ''Internal Server Error'', st))"
proof (intro conjI impI allI)
  assume "in_int64 user_id"
  then show "serve (get_user_projects user_id) st
     = (Response 200 (filter (\<lambda>p. p_owner_id p = user_id) (projects st)), st)"
    by (simp add: serve_get_user_projects)
next
  assume "in_int64 user_id" and "\<forall>p \<in> set (projects st). p_owner_id p \<noteq> user_id"
  then have "filter (\<lambda>p. p_owner_id p = user_id) (projects st) = []"
    by (simp add: filter_empty_conv)
  with \<open>in_int64 user_id\<close> show "serve (get_user_projects user_id) st = (Response 200 [], st)"
    by (simp add: serve_get_user_projects)
next
  fix found
  assume "in_int64 user_id"
    and "fst (serve (get_user_projects user_id) st) = Response 200 found"
  then have "found = filter (\<lambda>p. p_owner_id p = user_id) (projects st)"
    by (simp add: serve_get_user_projects)
  then show "set found = {p \<in> set (projects st). p_owner_id p = user_id}"
    by simp
next
  assume "\<not> in_int64 user_id"
  then show "serve (get_user_projects user_id) st
      = (ErrorResponse 500 ''Internal Server Error'', st)"
    by (simp add: serve_get_user_projects)
qed

theorem get_user_projects_by_owner_witness:
  "serve (get_user_projects 1) campus = (Response 200 [project_p], campus) \<and>
   serve (get_user_projects 2) campus = (Response 200 [], campus) \<and>
   set [project_p] = {p \<in> set (projects campus). p_owner_id p = 1} \<and>
   serve (get_user_projects (2 ^ 63)) campus
     = (ErrorResponse 500 ''Internal Server Error'', campus)"
proof -
  have range: "in_int64 1" "in_int64 2" "\<not> in_int64 (2 ^ 63)"
    by (simp_all add: in_int64_def)
  have none: "\<forall>p \<in> set (projects campus). p_owner_id p \<noteq> 2"
    by (simp add: campus_def project_p_def)
  have one: "filter (\<lambda>p. p_owner_id p = 1) (projects campus) = [project_p]"
    by (simp add: campus_def project_p_def)
  have a: "serve (get_user_projects 1) campus = (Response 200 [project_p], campus)"
    using get_user_projects_by_owner [of 1 campus] range(1) one by simp
  have b: "serve (get_user_projects 2) campus = (Response 200 [], campus)"
    using get_user_projects_by_owner [of 2 campus] range(2) none by blast
  have "fst (serve (get_user_projects 1) campus) = Response 200 [project_p]"
    using a by simp
  then have c: "set [project_p] = {p \<in> set (projects campus). p_owner_id p = 1}"
    using get_user_projects_by_owner [of 1 campus] range(1) by blast
  have d: "serve (get_user_projects (2 ^ 63)) campus
      = (ErrorResponse 500 ''Internal Server Error'', campus)"
    using get_user_projects_by_owner [of "2 ^ 63" campus] range(3) by blast
  from a b c d show ?thesis by blast
qed

text \<open>
  C10. A DELETE of a user that answers 204 has removed the rows of that user and nothing
  else: every project and course is as before, so the projects whose \<^verbatim>\<open>owner_id\<close> is
  the deleted user's id are still stored and still listed for that id, while a GET of
  the user answers 404.
\<close>

theorem delete_user_keeps_projects:
  assumes "fst (serve (delete_user accepts user_id) st) = Response 204 ()"
  shows "projects (snd (serve (delete_user accepts user_id) st)) = projects st \<and>
         courses (snd (serve (delete_user accepts user_id) st)) = courses st \<and>
         users (snd (serve (delete_user accepts user_id) st))
           = filter (\<lambda>u. u_id u \<noteq> user_id) (users st) \<and>
         fst (serve (get_user user_id) (snd (serve (delete_user accepts user_id) st)))
           = ErrorResponse 404 ''User not found'' \<and>
         fst (serve (get_user_projects user_id) (snd (serve (delete_user accepts user_id) st)))
           = Response 200 (filter (\<lambda>p. p_owner_id p = user_id) (projects st))"
  using assms
  by (auto simp add: serve_delete_user serve_get_user serve_get_user_projects Let_def
      find_deleted intro: found_in_range split: option.splits if_splits)

theorem delete_user_keeps_projects_witness:
  "fst (serve (delete_user unique_columns 1) campus) = Response 204 () \<and>
   projects (snd (serve (delete_user unique_columns 1) campus)) = [project_p] \<and>
   p_owner_id project_p = 1 \<and>
   users (snd (serve (delete_user unique_columns 1) campus)) = [] \<and>
   fst (serve (get_user_projects 1) (snd (serve (delete_user unique_columns 1) campus)))
     = Response 200 [project_p]"
proof -
  have ok: "fst (serve (delete_user unique_columns 1) campus) = Response 204 ()"
    by (simp add: serve_delete_user Let_def unique_columns_def campus_def user_a_def
        project_p_def course_c_def)
  show ?thesis
    using ok delete_user_keeps_projects [OF ok]
    by (simp add: campus_def user_a_def project_p_def)
qed

end
